theory Spec2Isabelle
  imports Complex_Main "HOL-Library.Product_Lexorder"
begin

section \<open>Conventions of the embedding\<close>

text \<open>
  The development embeds the fitness chatbot's meal-planning core:
  \<^item> \<^verbatim>\<open>model_3_build/model3_food_recommender.py\<close> (class FoodRecommender: the engine),
  \<^item> \<^verbatim>\<open>core/safety_validator.py\<close> (class SafetyValidator),
  \<^item> \<^verbatim>\<open>core/roadmap_generator.py\<close> (RoadmapGenerator.predict, from the safety patch on),
  \<^item> \<^verbatim>\<open>core/conversation_manager.py\<close> (class ConversationManager: the dialogue).

  Numbers. Python floats are idealised as exact rationals (\<open>rat\<close>): sums and products
  are exact, and \<^verbatim>\<open>round(x, n)\<close> is rounding to the nearest multiple of \<open>10^-n\<close> with
  ties to even. Python ints are \<open>int\<close>. A float that may be NaN or infinite (the raw output
  of the external predictor) is a \<open>pyfloat\<close>.

  Text. A Python string is a \<open>string\<close>; characters are code points below 256.

  Exceptions are values of \<open>py_error\<close>, returned on the left of a sum.

  Mutation. The engine keeps \<^verbatim>\<open>self.foods_by_category\<close>, a dict from category to a list
  of catalog entries. \<^verbatim>\<open>build_meal\<close> sorts lists in place, and
  \<^verbatim>\<open>_filter_by_restrictions\<close> may hand back the stored list itself, so the dict is
  threaded through the engine as explicit state (\<open>catalog_index\<close>).
\<close>

datatype py_error = ZeroDivisionError | ValueError | OverflowError

section \<open>Text primitives\<close>

definition lower_char :: "char \<Rightarrow> char" where
  "lower_char c =
     (let n = (of_char c :: nat)
      in if (65 \<le> n \<and> n \<le> 90) \<or> (192 \<le> n \<and> n \<le> 222 \<and> n \<noteq> 215)
         then char_of (n + 32) else c)"

definition lower :: "string \<Rightarrow> string" where
  "lower s = map lower_char s"

definition is_space :: "char \<Rightarrow> bool" where
  "is_space c =
     (let n = (of_char c :: nat)
      in (9 \<le> n \<and> n \<le> 13) \<or> (28 \<le> n \<and> n \<le> 32) \<or> n = 133 \<or> n = 160)"

definition strip :: "string \<Rightarrow> string" where
  "strip s = rev (dropWhile is_space (rev (dropWhile is_space s)))"

definition startswith :: "string \<Rightarrow> string \<Rightarrow> bool" where
  "startswith s p = (take (length p) s = p)"

text \<open>\<open>contains s x\<close> is Python's \<^verbatim>\<open>x in s\<close> on strings: \<open>x\<close> occurs as a substring.\<close>

fun contains :: "string \<Rightarrow> string \<Rightarrow> bool" where
  "contains [] x = (x = [])"
| "contains (c # cs) x = (startswith (c # cs) x \<or> contains cs x)"

definition is_digit :: "char \<Rightarrow> bool" where
  "is_digit c = (let n = (of_char c :: nat) in 48 \<le> n \<and> n \<le> 57)"

definition digit_val :: "char \<Rightarrow> nat" where
  "digit_val c = of_char c - 48"

section \<open>Numeric primitives\<close>

definition round_half_even :: "rat \<Rightarrow> int" where
  "round_half_even x =
     (let f = \<lfloor>x\<rfloor>; d = x - of_int f
      in if d < 1 / 2 then f
         else if 1 / 2 < d then f + 1
         else if even f then f else f + 1)"

text \<open>\<^verbatim>\<open>round(x, 1)\<close> and \<^verbatim>\<open>round(x, 0)\<close>.\<close>

definition round1 :: "rat \<Rightarrow> rat" where
  "round1 x = of_int (round_half_even (x * 10)) / 10"

definition round0 :: "rat \<Rightarrow> rat" where
  "round0 x = of_int (round_half_even x)"

text \<open>\<^verbatim>\<open>int(x)\<close> on a finite float truncates toward zero.\<close>

definition py_int :: "rat \<Rightarrow> int" where
  "py_int x = (if 0 \<le> x then \<lfloor>x\<rfloor> else \<lceil>x\<rceil>)"

text \<open>
  \<^verbatim>\<open>xs.sort(key=key, reverse=True)\<close>: a stable sort into descending key order; entries with
  equal keys keep their original relative order.
\<close>

fun insert_desc :: "('a \<Rightarrow> 'k::linorder) \<Rightarrow> 'a \<Rightarrow> 'a list \<Rightarrow> 'a list" where
  "insert_desc key x [] = [x]"
| "insert_desc key x (y # ys) =
     (if key y \<le> key x then x # y # ys else y # insert_desc key x ys)"

definition sort_desc :: "('a \<Rightarrow> 'k::linorder) \<Rightarrow> 'a list \<Rightarrow> 'a list" where
  "sort_desc key xs = foldr (insert_desc key) xs []"

section \<open>The food catalog and the engine (FoodRecommender)\<close>

record food_item =
  item_id :: string
  item_name :: string
  category :: string
  calories_per_100g :: rat
  item_protein_g :: rat
  item_carbs_g :: rat
  item_fat_g :: rat
  fiber_g :: rat
  vegetarian :: bool
  vegan :: bool
  allergens :: "string list"

text \<open>\<^verbatim>\<open>self.foods_by_category\<close>.\<close>

type_synonym catalog_index = "string \<Rightarrow> food_item list option"

text \<open>\<^verbatim>\<open>_organize_by_category\<close>: each category's entries in catalog order.\<close>

fun organize_by_category :: "food_item list \<Rightarrow> catalog_index \<Rightarrow> catalog_index" where
  "organize_by_category [] categories = categories"
| "organize_by_category (food # foods) categories =
     organize_by_category foods
       (categories(category food \<mapsto>
          (case categories (category food) of None \<Rightarrow> [] | Some fs \<Rightarrow> fs) @ [food]))"

text \<open>\<^verbatim>\<open>self.foods_by_category.get(c, [])\<close>.\<close>

definition get_category :: "catalog_index \<Rightarrow> string \<Rightarrow> food_item list" where
  "get_category idx c = (case idx c of None \<Rightarrow> [] | Some fs \<Rightarrow> fs)"

text \<open>The dicts \<^verbatim>\<open>nutrition\<close> and \<^verbatim>\<open>total_nutrition\<close>.\<close>

record nutrition =
  calories :: rat
  protein_g :: rat
  carbs_g :: rat
  fat_g :: rat

text \<open>An entry of \<^verbatim>\<open>selected_foods\<close>: id, name, portion_g and the spliced nutrition dict.\<close>

record portioned_food = nutrition +
  food_id :: string
  food_name :: string
  portion_g :: rat

record meal =
  foods :: "portioned_food list"
  total_calories :: rat
  total_protein_g :: rat
  total_carbs_g :: rat
  total_fat_g :: rat

definition MACRO_RATIOS :: "string \<Rightarrow> (rat \<times> rat \<times> rat) option" where
  "MACRO_RATIOS goal =
     (if goal = ''weight_loss'' then Some (35 / 100, 40 / 100, 25 / 100)
      else if goal = ''muscle_gain'' then Some (30 / 100, 50 / 100, 20 / 100)
      else if goal = ''maintenance'' then Some (25 / 100, 45 / 100, 30 / 100)
      else None)"

definition MEAL_DISTRIBUTION :: "(string \<times> rat) list" where
  "MEAL_DISTRIBUTION =
     [(''breakfast'', 25 / 100), (''lunch'', 35 / 100), (''dinner'', 30 / 100),
      (''snack'', 15 / 100)]"

definition MIN_PROTEIN_PER_MEAL :: rat where "MIN_PROTEIN_PER_MEAL = 20"
definition MIN_PORTION :: rat where "MIN_PORTION = 50"
definition MAX_PORTION :: rat where "MAX_PORTION = 500"
definition VEGETABLE_PORTION :: rat where "VEGETABLE_PORTION = 90"

text \<open>\<^verbatim>\<open>calculate_macros\<close>: (protein_g, carbs_g, fat_g) of the day, or ValueError.\<close>

definition calculate_macros :: "int \<Rightarrow> string \<Rightarrow> py_error + (rat \<times> rat \<times> rat)" where
  "calculate_macros cals goal =
     (case MACRO_RATIOS goal of
        None \<Rightarrow> Inl ValueError
      | Some (rp, rc, rf) \<Rightarrow>
          Inr (round1 (of_int cals * rp / 4), round1 (of_int cals * rc / 4),
               round1 (of_int cals * rf / 9)))"

text \<open>
  \<^verbatim>\<open>_filter_by_restrictions\<close>. With no restrictions, or exactly \<^verbatim>\<open>["none"]\<close>, the
  argument list itself is returned (\<open>returns_alias\<close>); otherwise a new list is built.
\<close>

definition returns_alias :: "string list \<Rightarrow> bool" where
  "returns_alias restrictions = (restrictions = [] \<or> restrictions = [''none''])"

definition allergen_match :: "food_item \<Rightarrow> string list \<Rightarrow> bool" where
  "allergen_match food restrictions =
     list_ex (\<lambda>restriction.
        startswith restriction ''no_'' \<and>
        (let allergen = drop 3 restriction
         in if allergen = ''nuts''
            then ''tree nuts'' \<in> set (allergens food) \<or> ''peanuts'' \<in> set (allergens food)
            else allergen \<in> set (allergens food)))
       restrictions"

definition keeps :: "string list \<Rightarrow> food_item \<Rightarrow> bool" where
  "keeps restrictions food =
     (\<not> (''vegetarian'' \<in> set restrictions \<and> \<not> vegetarian food) \<and>
      \<not> (''vegan'' \<in> set restrictions \<and> \<not> vegan food) \<and>
      \<not> allergen_match food restrictions)"

definition filter_by_restrictions :: "food_item list \<Rightarrow> string list \<Rightarrow> food_item list" where
  "filter_by_restrictions fs restrictions =
     (if returns_alias restrictions then fs else filter (keeps restrictions) fs)"

text \<open>\<^verbatim>\<open>_calculate_portion_calories\<close>.\<close>

definition calculate_portion_calories :: "food_item \<Rightarrow> rat \<Rightarrow> nutrition" where
  "calculate_portion_calories food portion =
     (let factor = portion / 100
      in \<lparr>calories = round1 (calories_per_100g food * factor),
          protein_g = round1 (item_protein_g food * factor),
          carbs_g = round1 (item_carbs_g food * factor),
          fat_g = round1 (item_fat_g food * factor)\<rparr>)"

text \<open>
  The running state of \<^verbatim>\<open>build_meal\<close>: \<^verbatim>\<open>selected_foods\<close> and
  \<^verbatim>\<open>total_nutrition\<close>.
\<close>

record selection =
  selected_foods :: "portioned_food list"
  total_nutrition :: nutrition

definition empty_selection :: selection where
  "empty_selection =
     \<lparr>selected_foods = [],
      total_nutrition = \<lparr>calories = 0, protein_g = 0, carbs_g = 0, fat_g = 0\<rparr>\<rparr>"

definition add_nutrition :: "nutrition \<Rightarrow> nutrition \<Rightarrow> nutrition" where
  "add_nutrition t n =
     \<lparr>calories = calories t + calories n, protein_g = protein_g t + protein_g n,
      carbs_g = carbs_g t + carbs_g n, fat_g = fat_g t + fat_g n\<rparr>"

text \<open>
  The block shared by steps 1 to 4: compute the nutrition of the portion, append the entry
  (its \<^verbatim>\<open>portion_g\<close> rounded to a whole number) and add the nutrition to the totals.
\<close>

definition select_food :: "selection \<Rightarrow> food_item \<Rightarrow> rat \<Rightarrow> selection" where
  "select_food sel food portion =
     (let n = calculate_portion_calories food portion
      in \<lparr>selected_foods = selected_foods sel @
            [\<lparr>calories = calories n, protein_g = protein_g n, carbs_g = carbs_g n,
              fat_g = fat_g n, food_id = item_id food, food_name = item_name food,
              portion_g = round0 portion\<rparr>],
          total_nutrition = add_nutrition (total_nutrition sel) n\<rparr>)"

definition complex_carbs :: "string list" where
  "complex_carbs = [''quinoa'', ''oats'', ''brown_rice'', ''whole_wheat_pasta'', ''sweet_potato'']"

definition veg_priority :: "string list" where
  "veg_priority = [''broccoli'', ''spinach'', ''kale'', ''bell_pepper'']"

definition fat_priority :: "string list" where
  "fat_priority = [''olive_oil'', ''avocado'', ''chia_seeds'', ''flaxseeds'']"

text \<open>
  Step 1. When the filter returned the stored list, the in-place sort reorders
  \<^verbatim>\<open>foods_by_category["protein"]\<close>. A best entry with \<^verbatim>\<open>protein_g == 0\<close> makes
  the division raise.
\<close>

definition step_protein ::
  "catalog_index \<Rightarrow> rat \<Rightarrow> string list \<Rightarrow> selection \<Rightarrow> (py_error + selection) \<times> catalog_index" where
  "step_protein idx meal_protein_g restrictions sel =
     (case filter_by_restrictions (get_category idx ''protein'') restrictions of
        [] \<Rightarrow> (Inr sel, idx)
      | f # fs \<Rightarrow>
          (case sort_desc item_protein_g (f # fs) of
             [] \<Rightarrow> (Inr sel, idx)
           | best_protein # rest \<Rightarrow>
               (let idx' = (if returns_alias restrictions
                            then idx(''protein'' \<mapsto> best_protein # rest) else idx);
                    protein_needed = meal_protein_g * (6 / 10)
                in if item_protein_g best_protein = 0 then (Inl ZeroDivisionError, idx')
                   else (Inr (select_food sel best_protein
                           (min (max (protein_needed / item_protein_g best_protein * 100)
                                  MIN_PORTION) MAX_PORTION)), idx'))))"

text \<open>
  Step 2. The candidates are the concatenation of two stored lists, a new list: sorting it
  changes no stored list.
\<close>

definition step_grain :: "catalog_index \<Rightarrow> rat \<Rightarrow> string list \<Rightarrow> selection \<Rightarrow> py_error + selection" where
  "step_grain idx meal_carbs_g restrictions sel =
     (case sort_desc (\<lambda>x. (item_id x \<in> set complex_carbs, fiber_g x))
             (filter_by_restrictions (get_category idx ''grain'' @ get_category idx ''carb'')
                restrictions) of
        [] \<Rightarrow> Inr sel
      | best_grain # rest \<Rightarrow>
          (let carbs_needed = max (meal_carbs_g - carbs_g (total_nutrition sel)) 0
           in if item_carbs_g best_grain = 0 then Inl ZeroDivisionError
              else Inr (select_food sel best_grain
                     (min (max (carbs_needed / item_carbs_g best_grain * 100) MIN_PORTION)
                        MAX_PORTION))))"

text \<open>Step 3: a fixed 90 g of the best vegetable; the sort may reorder the stored list.\<close>

definition step_vegetable ::
  "catalog_index \<Rightarrow> string list \<Rightarrow> selection \<Rightarrow> selection \<times> catalog_index" where
  "step_vegetable idx restrictions sel =
     (case sort_desc (\<lambda>x. (item_id x \<in> set veg_priority, fiber_g x))
             (filter_by_restrictions (get_category idx ''vegetable'') restrictions) of
        [] \<Rightarrow> (sel, idx)
      | best_veg # rest \<Rightarrow>
          (select_food sel best_veg VEGETABLE_PORTION,
           if returns_alias restrictions then idx(''vegetable'' \<mapsto> best_veg # rest) else idx))"

text \<open>Step 4: only while the fat total is below 70% of the meal's fat target.\<close>

definition step_fat ::
  "catalog_index \<Rightarrow> rat \<Rightarrow> string list \<Rightarrow> selection \<Rightarrow> (py_error + selection) \<times> catalog_index" where
  "step_fat idx meal_fat_g restrictions sel =
     (if fat_g (total_nutrition sel) < meal_fat_g * (7 / 10) then
        (case sort_desc (\<lambda>x. item_id x \<in> set fat_priority)
                (filter_by_restrictions (get_category idx ''fat'') restrictions) of
           [] \<Rightarrow> (Inr sel, idx)
         | best_fat # rest \<Rightarrow>
             (let idx' = (if returns_alias restrictions
                          then idx(''fat'' \<mapsto> best_fat # rest) else idx);
                  fat_needed = max (meal_fat_g - fat_g (total_nutrition sel)) 0
              in if item_fat_g best_fat = 0 then (Inl ZeroDivisionError, idx')
                 else (Inr (select_food sel best_fat
                         (min (max (fat_needed / item_fat_g best_fat * 100) 5) 30)), idx')))
      else (Inr sel, idx))"

text \<open>Steps 1 to 4 in order; an exception leaves the reordering done so far in place.\<close>

definition select_foods ::
  "catalog_index \<Rightarrow> rat \<Rightarrow> rat \<Rightarrow> rat \<Rightarrow> string list \<Rightarrow> (py_error + selection) \<times> catalog_index" where
  "select_foods idx meal_protein_g meal_carbs_g meal_fat_g restrictions =
     (case step_protein idx meal_protein_g restrictions empty_selection of
        (Inl e, idx1) \<Rightarrow> (Inl e, idx1)
      | (Inr sel1, idx1) \<Rightarrow>
          (case step_grain idx1 meal_carbs_g restrictions sel1 of
             Inl e \<Rightarrow> (Inl e, idx1)
           | Inr sel2 \<Rightarrow>
               (case step_vegetable idx1 restrictions sel2 of
                  (sel3, idx3) \<Rightarrow> step_fat idx3 meal_fat_g restrictions sel3)))"

text \<open>Step 5. The guard of the scaling branch and the branch itself.\<close>

definition scale_factor :: "int \<Rightarrow> selection \<Rightarrow> rat" where
  "scale_factor meal_calories sel = of_int meal_calories / calories (total_nutrition sel)"

definition scales :: "int \<Rightarrow> selection \<Rightarrow> bool" where
  "scales meal_calories sel =
     (0 < calories (total_nutrition sel) \<and>
      3 / 100 < \<bar>1 - scale_factor meal_calories sel\<bar> \<and>
      7 / 10 \<le> scale_factor meal_calories sel \<and> scale_factor meal_calories sel \<le> 13 / 10)"

definition scale_food :: "rat \<Rightarrow> portioned_food \<Rightarrow> portioned_food" where
  "scale_food k food =
     food\<lparr>portion_g := round0 (portion_g food * k),
          calories := round1 (calories food * k),
          protein_g := round1 (protein_g food * k),
          carbs_g := round1 (carbs_g food * k),
          fat_g := round1 (fat_g food * k)\<rparr>"

definition sum_nutrition :: "portioned_food list \<Rightarrow> nutrition" where
  "sum_nutrition fs =
     \<lparr>calories = sum_list (map calories fs), protein_g = sum_list (map protein_g fs),
      carbs_g = sum_list (map carbs_g fs), fat_g = sum_list (map fat_g fs)\<rparr>"

definition scale_to_target :: "int \<Rightarrow> selection \<Rightarrow> selection" where
  "scale_to_target meal_calories sel =
     (if scales meal_calories sel then
        (let fs = map (scale_food (scale_factor meal_calories sel)) (selected_foods sel)
         in \<lparr>selected_foods = fs, total_nutrition = sum_nutrition fs\<rparr>)
      else sel)"

definition finish_meal :: "selection \<Rightarrow> meal" where
  "finish_meal sel =
     \<lparr>foods = selected_foods sel,
      total_calories = round1 (calories (total_nutrition sel)),
      total_protein_g = round1 (protein_g (total_nutrition sel)),
      total_carbs_g = round1 (carbs_g (total_nutrition sel)),
      total_fat_g = round1 (fat_g (total_nutrition sel))\<rparr>"

text \<open>
  \<^verbatim>\<open>build_meal\<close>. The \<^verbatim>\<open>suggested_sentence\<close> of the result is a rendering of
  \<open>foods\<close> and is not kept.
\<close>

definition build_meal ::
  "catalog_index \<Rightarrow> int \<Rightarrow> rat \<Rightarrow> rat \<Rightarrow> rat \<Rightarrow> string list \<Rightarrow> (py_error + meal) \<times> catalog_index" where
  "build_meal idx meal_calories meal_protein_g meal_carbs_g meal_fat_g restrictions =
     (case select_foods idx meal_protein_g meal_carbs_g meal_fat_g restrictions of
        (Inl e, idx') \<Rightarrow> (Inl e, idx')
      | (Inr sel, idx') \<Rightarrow> (Inr (finish_meal (scale_to_target meal_calories sel)), idx'))"

text \<open>\<^verbatim>\<open>_validate_safety\<close>, the engine's own check; its messages as values.\<close>

datatype engine_violation =
  InsufficientProtein string rat
| UnsafePortion string string rat

definition main_meals :: "string list" where
  "main_meals = [''breakfast'', ''lunch'', ''dinner'']"

definition protein_errors :: "(string \<times> meal) list \<Rightarrow> engine_violation list" where
  "protein_errors meal_plan =
     concat (map (\<lambda>(meal_name, meal_data).
        if meal_name \<in> set main_meals \<and> total_protein_g meal_data < MIN_PROTEIN_PER_MEAL
        then [InsufficientProtein meal_name (total_protein_g meal_data)] else []) meal_plan)"

definition portion_errors :: "(string \<times> meal) list \<Rightarrow> engine_violation list" where
  "portion_errors meal_plan =
     concat (map (\<lambda>(meal_name, meal_data).
        concat (map (\<lambda>food.
          if (portion_g food < MIN_PORTION \<or> MAX_PORTION < portion_g food) \<and> 50 < portion_g food
          then [UnsafePortion meal_name (food_name food) (portion_g food)] else [])
          (foods meal_data))) meal_plan)"

definition validate_safety :: "(string \<times> meal) list \<Rightarrow> bool \<times> engine_violation list" where
  "validate_safety meal_plan =
     (let errors = protein_errors meal_plan @ portion_errors meal_plan
      in (errors = [], errors))"

text \<open>
  The loop of \<^verbatim>\<open>generate_plan\<close> over \<^verbatim>\<open>MEAL_DISTRIBUTION.items()\<close>: one
  \<^verbatim>\<open>build_meal\<close> per meal, each on the index the previous one left.
\<close>

fun build_meals ::
  "catalog_index \<Rightarrow> int \<Rightarrow> (rat \<times> rat \<times> rat) \<Rightarrow> string list \<Rightarrow> (string \<times> rat) list \<Rightarrow>
     (py_error + (string \<times> meal) list) \<times> catalog_index" where
  "build_meals idx target_calories daily_macros restrictions [] = (Inr [], idx)"
| "build_meals idx target_calories daily_macros restrictions ((meal_name, meal_pct) # rest) =
     (case daily_macros of (dp, dc, df) \<Rightarrow>
        (case build_meal idx (py_int (of_int target_calories * meal_pct))
                (dp * meal_pct) (dc * meal_pct) (df * meal_pct) restrictions of
           (Inl e, idx') \<Rightarrow> (Inl e, idx')
         | (Inr m, idx') \<Rightarrow>
             (case build_meals idx' target_calories daily_macros restrictions rest of
                (Inl e, idx'') \<Rightarrow> (Inl e, idx'')
              | (Inr ms, idx'') \<Rightarrow> (Inr ((meal_name, m) # ms), idx''))))"

text \<open>
  \<^verbatim>\<open>daily_summary\<close>; \<open>macro_accuracy\<close> is the percentage before it is rendered with one
  decimal.
\<close>

record daily_summary =
  daily_calories :: rat
  daily_protein_g :: rat
  daily_carbs_g :: rat
  daily_fat_g :: rat
  macro_accuracy :: rat

text \<open>
  The result dict of \<^verbatim>\<open>generate_plan\<close>: status success with the plan and its summary (the
  \<^verbatim>\<open>chatbot_message\<close> is a rendering of both), status error from the safety check with
  its details, or status error from a caught exception.
\<close>

datatype plan_result =
  Success "(string \<times> meal) list" daily_summary
| SafetyError "engine_violation list"
| ExceptionError py_error

definition generate_plan ::
  "catalog_index \<Rightarrow> int \<Rightarrow> string \<Rightarrow> string list \<Rightarrow> plan_result \<times> catalog_index" where
  "generate_plan idx target_calories fitness_goal restrictions =
     (case calculate_macros target_calories fitness_goal of
        Inl e \<Rightarrow> (ExceptionError e, idx)
      | Inr daily_macros \<Rightarrow>
          (case build_meals idx target_calories daily_macros restrictions MEAL_DISTRIBUTION of
             (Inl e, idx') \<Rightarrow> (ExceptionError e, idx')
           | (Inr meal_plan, idx') \<Rightarrow>
               (let cals = round1 (sum_list (map (\<lambda>(n, m). total_calories m) meal_plan))
                in if target_calories = 0 then (ExceptionError ZeroDivisionError, idx')
                   else
                     (case validate_safety meal_plan of
                        (is_safe, errors) \<Rightarrow>
                          if \<not> is_safe then (SafetyError errors, idx')
                          else
                            (Success meal_plan
                               \<lparr>daily_calories = cals,
                                daily_protein_g =
                                  round1 (sum_list (map (\<lambda>(n, m). total_protein_g m) meal_plan)),
                                daily_carbs_g =
                                  round1 (sum_list (map (\<lambda>(n, m). total_carbs_g m) meal_plan)),
                                daily_fat_g =
                                  round1 (sum_list (map (\<lambda>(n, m). total_fat_g m) meal_plan)),
                                macro_accuracy = cals / of_int target_calories * 100\<rparr>,
                             idx')))))"

text \<open>
  For the statement of the plan's calorie accuracy: the calorie target handed to each
  \<^verbatim>\<open>build_meal\<close> of the loop, with the selection its steps 1 to 4 produce (before step
  5), on the index as the loop threads it; the list ends at the first exception.
\<close>

fun meal_selections ::
  "catalog_index \<Rightarrow> int \<Rightarrow> (rat \<times> rat \<times> rat) \<Rightarrow> string list \<Rightarrow> (string \<times> rat) list \<Rightarrow>
     (int \<times> selection) list" where
  "meal_selections idx target daily_macros restrictions [] = []"
| "meal_selections idx target daily_macros restrictions ((meal_name, meal_pct) # rest) =
     (case daily_macros of (dp, dc, df) \<Rightarrow>
        (case select_foods idx (dp * meal_pct) (dc * meal_pct) (df * meal_pct) restrictions of
           (Inl e, idx') \<Rightarrow> []
         | (Inr sel, idx') \<Rightarrow>
             (py_int (of_int target * meal_pct), sel) #
             meal_selections idx' target daily_macros restrictions rest))"

definition plan_selections ::
  "catalog_index \<Rightarrow> int \<Rightarrow> string \<Rightarrow> string list \<Rightarrow> (int \<times> selection) list" where
  "plan_selections idx target goal restrictions =
     (case calculate_macros target goal of
        Inl e \<Rightarrow> []
      | Inr daily_macros \<Rightarrow> meal_selections idx target daily_macros restrictions MEAL_DISTRIBUTION)"

text \<open>The selection has calories and its scale factor lies in [0.7, 1.3].\<close>

definition factor_in_range :: "int \<times> selection \<Rightarrow> bool" where
  "factor_in_range cs =
     (case cs of (meal_calories, sel) \<Rightarrow>
        0 < calories (total_nutrition sel) \<and>
        7 / 10 \<le> scale_factor meal_calories sel \<and> scale_factor meal_calories sel \<le> 13 / 10)"

text \<open>The totals of a selection are the sums over its foods, and it has at most n foods.\<close>

definition tallied :: "nat \<Rightarrow> selection \<Rightarrow> bool" where
  "tallied n sel =
     (calories (total_nutrition sel) = sum_list (map calories (selected_foods sel)) \<and>
      length (selected_foods sel) \<le> n)"

text \<open>
  For the effect of the in-place sorts. \<open>sorted_view s u\<close>: index \<open>u\<close> is index \<open>s\<close>
  with some of the protein, vegetable and fat lists sorted the way the steps of
  \<^verbatim>\<open>build_meal\<close> sort them.
\<close>

definition sorted_view :: "catalog_index \<Rightarrow> catalog_index \<Rightarrow> bool" where
  "sorted_view s u \<longleftrightarrow>
     (\<forall>c. u c = s c \<or>
          (c = ''protein'' \<and> u c = map_option (sort_desc item_protein_g) (s c)) \<or>
          (c = ''vegetable'' \<and>
           u c = map_option (sort_desc (\<lambda>x. (item_id x \<in> set veg_priority, fiber_g x))) (s c)) \<or>
          (c = ''fat'' \<and>
           u c = map_option (sort_desc (\<lambda>x. item_id x \<in> set fat_priority)) (s c)))"

text \<open>
  \<open>settling f\<close>: the operation \<open>f\<close> changes the index only by such sorting, and run
  on an index that already has those lists sorted it returns the same value and leaves
  the index as it is.
\<close>

definition settling :: "(catalog_index \<Rightarrow> 'a \<times> catalog_index) \<Rightarrow> bool" where
  "settling f \<longleftrightarrow>
     (\<forall>s. sorted_view s (snd (f s)) \<and>
          (\<forall>u. sorted_view s u \<and> sorted_view (snd (f s)) u \<longrightarrow> f u = (fst (f s), u)))"

section \<open>The safety validator (SafetyValidator)\<close>

text \<open>
  The validator reads plain dicts. A food has its \<^verbatim>\<open>name\<close> (read unguarded when a
  message is built) and may lack \<^verbatim>\<open>portion_g\<close> and \<^verbatim>\<open>allergens\<close>; an entry of the
  plan may lack \<^verbatim>\<open>foods\<close> and \<^verbatim>\<open>total_protein_g\<close>. The plan is the dict's items in
  order.
\<close>

record plan_food =
  name :: string
  portion :: "rat option"
  allergen_tags :: "string list option"

record plan_entry =
  entry_foods :: "plan_food list option"
  entry_protein_g :: "rat option"

type_synonym meal_plan = "(string \<times> plan_entry) list"

text \<open>The messages appended to \<^verbatim>\<open>errors\<close>, by kind and the values they render.\<close>

datatype violation =
  AllergenViolation string string
| CondimentPortionUnusual string rat
| PortionTooSmall string rat
| PortionTooLarge string rat
| LowProtein string rat

definition OILS_AND_FATS :: "string list" where
  "OILS_AND_FATS = [''oil'', ''butter'', ''ghee'', ''mayonnaise'', ''dressing'']"

definition CONDIMENTS :: "string list" where
  "CONDIMENTS = [''sauce'', ''spices'', ''salt'', ''pepper'', ''sugar'', ''honey'']"

text \<open>\<^verbatim>\<open>any(r in food.get("allergens", []) for r in restrictions)\<close>.\<close>

definition has_restricted_allergen :: "string list \<Rightarrow> plan_food \<Rightarrow> bool" where
  "has_restricted_allergen restrictions food =
     list_ex (\<lambda>r. r \<in> set (case allergen_tags food of None \<Rightarrow> [] | Some ts \<Rightarrow> ts)) restrictions"

text \<open>The entries the loops of gates 1 and 2 visit, with the foods of each.\<close>

definition visited :: "meal_plan \<Rightarrow> (string \<times> plan_food list) list" where
  "visited plan =
     concat (map (\<lambda>(meal_name, entry).
        if meal_name = ''daily_summary'' then []
        else (case entry_foods entry of None \<Rightarrow> [] | Some fs \<Rightarrow> [(meal_name, fs)])) plan)"

text \<open>Gate 1: the first food with a restricted allergen, in iteration order.\<close>

fun gate1_foods :: "string list \<Rightarrow> string \<Rightarrow> plan_food list \<Rightarrow> violation option" where
  "gate1_foods restrictions meal_name [] = None"
| "gate1_foods restrictions meal_name (food # rest) =
     (if has_restricted_allergen restrictions food
      then Some (AllergenViolation (name food) meal_name)
      else gate1_foods restrictions meal_name rest)"

fun gate1 :: "string list \<Rightarrow> (string \<times> plan_food list) list \<Rightarrow> violation option" where
  "gate1 restrictions [] = None"
| "gate1 restrictions ((meal_name, fs) # rest) =
     (case gate1_foods restrictions meal_name fs of
        Some v \<Rightarrow> Some v
      | None \<Rightarrow> gate1 restrictions rest)"

definition is_tiny_ok :: "string \<Rightarrow> bool" where
  "is_tiny_ok nm = list_ex (\<lambda>x. contains (lower nm) x) (CONDIMENTS @ OILS_AND_FATS)"

text \<open>Gate 2 on one food.\<close>

definition gate2_food :: "plan_food \<Rightarrow> violation list" where
  "gate2_food food =
     (let p = (case portion food of None \<Rightarrow> 0 | Some q \<Rightarrow> q)
      in if is_tiny_ok (name food) then
           (if p < 5 \<or> 50 < p then [CondimentPortionUnusual (name food) p] else [])
         else if p < 15 then [PortionTooSmall (name food) p]
         else if 600 < p then [PortionTooLarge (name food) p]
         else [])"

definition gate2 :: "(string \<times> plan_food list) list \<Rightarrow> violation list" where
  "gate2 vs = concat (map (\<lambda>(meal_name, fs). concat (map gate2_food fs)) vs)"

text \<open>Gate 3: \<^verbatim>\<open>meal_plan[meal_name]\<close> is a dict lookup.\<close>

definition gate3_meal :: "meal_plan \<Rightarrow> string \<Rightarrow> violation list" where
  "gate3_meal plan meal_name =
     (case map_of plan meal_name of
        None \<Rightarrow> []
      | Some entry \<Rightarrow>
          (let p = (case entry_protein_g entry of None \<Rightarrow> 0 | Some q \<Rightarrow> q)
           in if p < 15 then [LowProtein meal_name p] else []))"

definition gate3 :: "meal_plan \<Rightarrow> violation list" where
  "gate3 plan = concat (map (gate3_meal plan) [''breakfast'', ''lunch'', ''dinner''])"

text \<open>\<^verbatim>\<open>validate_meal_plan\<close>; \<^verbatim>\<open>daily_target_calories\<close> is accepted and never read.\<close>

definition validate_meal_plan :: "meal_plan \<Rightarrow> int \<Rightarrow> string list \<Rightarrow> bool \<times> violation list" where
  "validate_meal_plan plan daily_target_calories restrictions =
     (case gate1 restrictions (visited plan) of
        Some v \<Rightarrow> (False, [v])
      | None \<Rightarrow>
          (let errors = gate2 (visited plan) @ gate3 plan
           in if length errors = 0 then (True, []) else (length errors = 0, errors)))"

text \<open>The engine's plan as the dict the validator receives.\<close>

definition as_plan_food :: "portioned_food \<Rightarrow> plan_food" where
  "as_plan_food f = \<lparr>name = food_name f, portion = Some (portion_g f), allergen_tags = None\<rparr>"

definition as_plan_entry :: "meal \<Rightarrow> plan_entry" where
  "as_plan_entry m =
     \<lparr>entry_foods = Some (map as_plan_food (foods m)), entry_protein_g = Some (total_protein_g m)\<rparr>"

definition as_meal_plan :: "(string \<times> meal) list \<Rightarrow> meal_plan" where
  "as_meal_plan mp = map (\<lambda>(n, m). (n, as_plan_entry m)) mp"

section \<open>The roadmap predictor (RoadmapGenerator.predict)\<close>

datatype pyfloat = Finite rat | PosInf | NegInf | NaN

text \<open>
  The trained model and its feature encoding are external. \<open>raw_prediction\<close> is what
  \<^verbatim>\<open>predict\<close> holds in \<^verbatim>\<open>target_weight\<close>, \<^verbatim>\<open>target_calories\<close> and
  \<^verbatim>\<open>target_exercise\<close> when it reaches its defensive validation.
\<close>

record raw_prediction =
  raw_weight :: pyfloat
  raw_calories :: pyfloat
  raw_exercise :: pyfloat

text \<open>The profile dict (\<^verbatim>\<open>user_state\<close>); \<open>None\<close> is Python's \<^verbatim>\<open>None\<close>.\<close>

record profile =
  weight_kg :: "rat option"
  height_cm :: "rat option"
  age :: "int option"
  gender :: string
  activity_level :: "string option"
  fitness_goal :: "string option"
  current_week :: int
  dietary_restrictions :: "string list"

record roadmap =
  target_weight_kg :: pyfloat
  target_calories :: int
  target_exercise_minutes :: int
  roadmap_goal :: "string option"
  roadmap_restrictions :: "string list"

text \<open>Non-finite or non-positive predictions become 2000, those below 1000 become 1500.\<close>

definition defensive_calories :: "pyfloat \<Rightarrow> rat" where
  "defensive_calories c =
     (case c of
        Finite x \<Rightarrow> if x \<le> 0 then 2000 else if x < 1000 then 1500 else x
      | _ \<Rightarrow> 2000)"

definition goal_lower :: "profile \<Rightarrow> string" where
  "goal_lower user_state =
     lower (case fitness_goal user_state of None \<Rightarrow> ''None'' | Some g \<Rightarrow> g)"

definition is_muscle_gain :: "profile \<Rightarrow> bool" where
  "is_muscle_gain user_state =
     (list_ex (contains (goal_lower user_state)) [''muscle'', ''gain''] \<and>
      \<not> contains (goal_lower user_state) ''loss'' \<and>
      \<not> contains (goal_lower user_state) ''cut'')"

definition is_weight_loss :: "profile \<Rightarrow> bool" where
  "is_weight_loss user_state =
     list_ex (contains (goal_lower user_state)) [''loss'', ''lose'', ''cut'', ''shed'']"

text \<open>The goal-specific floors.\<close>

definition floored_calories :: "profile \<Rightarrow> rat \<Rightarrow> rat" where
  "floored_calories user_state c =
     (if is_muscle_gain user_state then
        (let min_cal = (if gender user_state = ''male'' then 2700 else 2400)
         in if c < min_cal then min_cal else c)
      else if is_weight_loss user_state then
        (let min_cal = (if gender user_state = ''male'' then 1500 else 1200)
         in if c < min_cal then min_cal else c)
      else c)"

text \<open>\<^verbatim>\<open>int(x)\<close> raises on NaN and on an infinity.\<close>

definition int_of_pyfloat :: "pyfloat \<Rightarrow> py_error + int" where
  "int_of_pyfloat x =
     (case x of Finite q \<Rightarrow> Inr (py_int q) | NaN \<Rightarrow> Inl ValueError | _ \<Rightarrow> Inl OverflowError)"

definition round1_pyfloat :: "pyfloat \<Rightarrow> pyfloat" where
  "round1_pyfloat x = (case x of Finite q \<Rightarrow> Finite (round1 q) | y \<Rightarrow> y)"

definition predict :: "raw_prediction \<Rightarrow> profile \<Rightarrow> py_error + roadmap" where
  "predict raw user_state =
     (case int_of_pyfloat (raw_exercise raw) of
        Inl e \<Rightarrow> Inl e
      | Inr minutes \<Rightarrow>
          Inr \<lparr>target_weight_kg = round1_pyfloat (raw_weight raw),
               target_calories =
                 py_int (floored_calories user_state (defensive_calories (raw_calories raw))),
               target_exercise_minutes = minutes,
               roadmap_goal = fitness_goal user_state,
               roadmap_restrictions = dietary_restrictions user_state\<rparr>)"

section \<open>The dialogue (ConversationManager)\<close>

datatype conv_state =
  STATE_GREETING
| STATE_ONBOARDING_GOAL
| STATE_ONBOARDING_WEIGHT
| STATE_ONBOARDING_HEIGHT
| STATE_ONBOARDING_AGE
| STATE_ONBOARDING_GENDER
| STATE_ONBOARDING_ACTIVITY
| STATE_READY_FOR_PLAN
| STATE_SHOWING_ROADMAP
| STATE_ONBOARDING_DIET

text \<open>\<open>last_interaction\<close> is a timestamp in microseconds, the resolution of a datetime.\<close>

record conversation =
  current_state :: conv_state
  conv_profile :: profile
  last_interaction :: int
  message_count :: int

type_synonym conversations = "string \<Rightarrow> conversation option"

definition fresh_profile :: profile where
  "fresh_profile =
     \<lparr>weight_kg = None, height_cm = None, age = None, gender = ''female'',
      activity_level = None, fitness_goal = None, current_week = 1,
      dietary_restrictions = []\<rparr>"

definition seven_days :: int where
  "seven_days = 7 * 24 * 60 * 60 * 1000000"

text \<open>
  \<^verbatim>\<open>get_user_conversation\<close> at time \<open>now\<close>: an unknown user gets a fresh record; a record
  idle for more than seven days has its state set back, in the store.
\<close>

definition get_user_conversation ::
  "int \<Rightarrow> string \<Rightarrow> conversations \<Rightarrow> conversation \<times> conversations" where
  "get_user_conversation now user_id convs =
     (let c = (case convs user_id of
                 None \<Rightarrow>
                   \<lparr>current_state = STATE_GREETING, conv_profile = fresh_profile,
                    last_interaction = now, message_count = 0\<rparr>
               | Some c0 \<Rightarrow> c0);
          c' = (if seven_days < now - last_interaction c
                then c\<lparr>current_state := STATE_GREETING\<rparr> else c)
      in (c', convs(user_id \<mapsto> c')))"

text \<open>
  \<^verbatim>\<open>_extract_number\<close>. The unit words of the pattern in the order the regex engine tries
  them (\<^verbatim>\<open>years?\<close> is greedy), matched ignoring case.
\<close>

definition unit_words :: "string list" where
  "unit_words =
     [''kg'', ''kilogram'', ''kilograms'', ''cm'', ''centimeter'', ''centimeters'',
      ''years'', ''year'', ''old'']"

definition match_unit :: "string \<Rightarrow> nat option" where
  "match_unit s =
     (case filter (\<lambda>w. lower (take (length w) s) = w) unit_words of
        [] \<Rightarrow> None
      | w # ws \<Rightarrow> Some (length w))"

text \<open>
  \<^verbatim>\<open>re.sub\<close> with the empty replacement, left to right; the first argument counts the
  characters of the current match still to drop.
\<close>

fun remove_units :: "nat \<Rightarrow> string \<Rightarrow> string" where
  "remove_units n [] = []"
| "remove_units (Suc n) (c # cs) = remove_units n cs"
| "remove_units 0 (c # cs) =
     (case match_unit (c # cs) of
        Some len \<Rightarrow> remove_units (len - 1) cs
      | None \<Rightarrow> c # remove_units 0 cs)"

definition digits_value :: "string \<Rightarrow> nat" where
  "digits_value ds = foldl (\<lambda>a c. 10 * a + digit_val c) 0 ds"

text \<open>
  \<^verbatim>\<open>re.search(r"(\d+\.?\d*)", ...)\<close>: the match starts at the first digit and takes the
  digits, a dot if one follows, and the digits after it; \<^verbatim>\<open>float\<close> reads it.
\<close>

definition extract_number :: "string \<Rightarrow> rat option" where
  "extract_number text =
     (case dropWhile (\<lambda>c. \<not> is_digit c) (remove_units 0 (strip text)) of
        [] \<Rightarrow> None
      | d # ds \<Rightarrow>
          (let whole = takeWhile is_digit (d # ds);
               after = dropWhile is_digit (d # ds);
               frac = (case after of
                         [] \<Rightarrow> []
                       | c # cs \<Rightarrow> if c = CHR ''.'' then takeWhile is_digit cs else [])
           in Some (of_nat (digits_value whole) +
                    of_nat (digits_value frac) / 10 ^ length frac)))"

definition ACTIVITY_LEVELS :: "(string \<times> string list) list" where
  "ACTIVITY_LEVELS =
     [(''sedentary'', [''sedentary'', ''sitting'', ''desk'', ''inactive'', ''lazy'']),
      (''light'', [''light'', ''walking'', ''casual'']),
      (''moderate'', [''moderate'', ''regular'', ''normal'', ''active'']),
      (''active'', [''active'', ''very active'', ''exercise'', ''gym'', ''workout'']),
      (''very_active'', [''very active'', ''athlete'', ''intense'', ''training''])]"

definition GOALS :: "(string \<times> string list) list" where
  "GOALS =
     [(''weight_loss'', [''lose'', ''loss'', ''reduce'', ''slim'', ''cut'', ''shed'']),
      (''muscle_gain'', [''gain'', ''build'', ''bulk'', ''muscle'', ''grow'', ''mass'']),
      (''maintenance'', [''maintain'', ''stay'', ''keep'', ''stable'', ''preserve''])]"

text \<open>\<^verbatim>\<open>_match_keyword\<close>: the first key, in table order, one of whose synonyms occurs.\<close>

fun match_keyword :: "string \<Rightarrow> (string \<times> string list) list \<Rightarrow> string option" where
  "match_keyword text [] = None"
| "match_keyword text ((key, synonyms) # rest) =
     (if list_ex (contains (lower text)) synonyms then Some key
      else match_keyword text rest)"

definition MIN_WEIGHT :: rat where "MIN_WEIGHT = 40"
definition MAX_WEIGHT :: rat where "MAX_WEIGHT = 200"
definition MIN_HEIGHT :: rat where "MIN_HEIGHT = 100"
definition MAX_HEIGHT :: rat where "MAX_HEIGHT = 250"
definition MIN_AGE :: rat where "MIN_AGE = 13"
definition MAX_AGE :: rat where "MAX_AGE = 100"

text \<open>The replies, by kind and the values they render.\<close>

datatype response =
  Starting_Fresh
| Greeting
| Goal_Stored
| Goal_Reprompt
| Weight_Logged rat
| Weight_Need_Number
| Weight_Unusual rat
| Height_Logged rat
| Height_Need_Number
| Height_Unusual rat
| Age_Logged int
| Age_Need_Number
| Age_Unrealistic
| Diet_Vegetarian
| Diet_Non_Veg
| Diet_Reprompt
| Activity_Reprompt
| Plan_Shown_Guidance
| Not_Sure
| Missing_Fields "string list"
| Meal_Plan_Trouble
| Unsafe_Plan "violation option"
| Plan_Response profile roadmap "(string \<times> meal) list" int
| System_Error py_error

text \<open>\<^verbatim>\<open>adapt_model2_to_model3\<close>: the input handed to the engine.\<close>

record model3_input =
  m3_target_calories :: int
  m3_fitness_goal :: "string option"
  m3_dietary_restrictions :: "string list"

definition adapt_model2_to_model3 :: "roadmap \<Rightarrow> profile \<Rightarrow> model3_input" where
  "adapt_model2_to_model3 model2_output user_profile =
     \<lparr>m3_target_calories = target_calories model2_output,
      m3_fitness_goal = fitness_goal user_profile,
      m3_dietary_restrictions = dietary_restrictions user_profile\<rparr>"

definition missing_fields :: "profile \<Rightarrow> string list" where
  "missing_fields p =
     (if weight_kg p = None then [''weight_kg''] else []) @
     (if height_cm p = None then [''height_cm''] else []) @
     (if age p = None then [''age''] else []) @
     (if activity_level p = None then [''activity_level''] else []) @
     (if fitness_goal p = None then [''fitness_goal''] else [])"

text \<open>
  \<^verbatim>\<open>_generate_plan\<close>: predictor, adapter, engine, validator, formatter. \<open>model\<close> is the
  external predictor's raw output for a profile. The engine and the validator both receive
  the adapter's \<open>m3_target_calories\<close>.
\<close>

definition conv_generate_plan ::
  "(profile \<Rightarrow> raw_prediction) \<Rightarrow> catalog_index \<Rightarrow> conversation \<Rightarrow>
     response \<times> conversation \<times> catalog_index" where
  "conv_generate_plan model idx conv =
     (let p = conv_profile conv
      in if missing_fields p \<noteq> [] then (Missing_Fields (missing_fields p), conv, idx)
         else
           (case predict (model p) p of
              Inl e \<Rightarrow> (System_Error e, conv, idx)
            | Inr rm \<Rightarrow>
                (let inp = adapt_model2_to_model3 rm p
                 in (case generate_plan idx (m3_target_calories inp)
                           (case m3_fitness_goal inp of None \<Rightarrow> ''None'' | Some g \<Rightarrow> g)
                           (m3_dietary_restrictions inp) of
                       (Success mp summary, idx') \<Rightarrow>
                         (case validate_meal_plan (as_meal_plan mp) (m3_target_calories inp)
                                 (m3_dietary_restrictions inp) of
                            (is_valid, errors) \<Rightarrow>
                              if \<not> is_valid
                              then (Unsafe_Plan (case errors of [] \<Rightarrow> None | e # es \<Rightarrow> Some e),
                                    conv, idx')
                              else (Plan_Response p rm mp (current_week p),
                                    conv\<lparr>current_state := STATE_SHOWING_ROADMAP\<rparr>, idx'))
                     | (other, idx') \<Rightarrow> (Meal_Plan_Trouble, conv, idx')))))"

definition reset_words :: "string list" where
  "reset_words = [''reset'', ''restart'', ''start over'', ''new'']"

text \<open>\<^verbatim>\<open>_handle_state\<close>: the reply, the conversation record after it, and the index.\<close>

definition handle_state ::
  "(profile \<Rightarrow> raw_prediction) \<Rightarrow> catalog_index \<Rightarrow> conversation \<Rightarrow> string \<Rightarrow>
     response \<times> conversation \<times> catalog_index" where
  "handle_state model idx conv message =
     (let state = current_state conv; p = conv_profile conv
      in if lower (strip message) \<in> set reset_words then
           (Starting_Fresh,
            conv\<lparr>current_state := STATE_GREETING, conv_profile := fresh_profile,
                 message_count := 0\<rparr>, idx)
         else if state = STATE_GREETING then
           (Greeting, conv\<lparr>current_state := STATE_ONBOARDING_GOAL\<rparr>, idx)
         else if state = STATE_ONBOARDING_GOAL then
           (case match_keyword message GOALS of
              Some goal \<Rightarrow>
                (Goal_Stored,
                 conv\<lparr>conv_profile := p\<lparr>fitness_goal := Some goal\<rparr>,
                      current_state := STATE_ONBOARDING_WEIGHT\<rparr>, idx)
            | None \<Rightarrow> (Goal_Reprompt, conv, idx))
         else if state = STATE_ONBOARDING_WEIGHT then
           (case extract_number message of
              None \<Rightarrow> (Weight_Need_Number, conv, idx)
            | Some weight \<Rightarrow>
                if weight \<noteq> 0 \<and> MIN_WEIGHT \<le> weight \<and> weight \<le> MAX_WEIGHT then
                  (Weight_Logged weight,
                   conv\<lparr>conv_profile := p\<lparr>weight_kg := Some weight\<rparr>,
                        current_state := STATE_ONBOARDING_HEIGHT\<rparr>, idx)
                else (Weight_Unusual weight, conv, idx))
         else if state = STATE_ONBOARDING_HEIGHT then
           (case extract_number message of
              None \<Rightarrow> (Height_Need_Number, conv, idx)
            | Some height \<Rightarrow>
                if height \<noteq> 0 \<and> MIN_HEIGHT \<le> height \<and> height \<le> MAX_HEIGHT then
                  (Height_Logged height,
                   conv\<lparr>conv_profile := p\<lparr>height_cm := Some height\<rparr>,
                        current_state := STATE_ONBOARDING_AGE\<rparr>, idx)
                else (Height_Unusual height, conv, idx))
         else if state = STATE_ONBOARDING_AGE then
           (case extract_number message of
              None \<Rightarrow> (Age_Need_Number, conv, idx)
            | Some a \<Rightarrow>
                if a \<noteq> 0 \<and> MIN_AGE \<le> a \<and> a \<le> MAX_AGE then
                  (Age_Logged (py_int a),
                   conv\<lparr>conv_profile := p\<lparr>age := Some (py_int a)\<rparr>,
                        current_state := STATE_ONBOARDING_DIET\<rparr>, idx)
                else (Age_Unrealistic, conv, idx))
         else if state = STATE_ONBOARDING_DIET then
           (let msg_clean = strip (lower message)
            in if list_ex (contains msg_clean) [''veg'', ''vegetarian'', ''vegan''] then
                 (Diet_Vegetarian,
                  conv\<lparr>conv_profile := p\<lparr>dietary_restrictions := [''vegetarian'']\<rparr>,
                       current_state := STATE_ONBOARDING_ACTIVITY\<rparr>, idx)
               else if contains msg_clean ''non'' then
                 (Diet_Non_Veg,
                  conv\<lparr>conv_profile := p\<lparr>dietary_restrictions := []\<rparr>,
                       current_state := STATE_ONBOARDING_ACTIVITY\<rparr>, idx)
               else (Diet_Reprompt, conv, idx))
         else if state = STATE_ONBOARDING_ACTIVITY then
           (case match_keyword message ACTIVITY_LEVELS of
              Some activity \<Rightarrow>
                conv_generate_plan model idx
                  (conv\<lparr>conv_profile := p\<lparr>activity_level := Some activity\<rparr>,
                        current_state := STATE_READY_FOR_PLAN\<rparr>)
            | None \<Rightarrow> (Activity_Reprompt, conv, idx))
         else if state = STATE_READY_FOR_PLAN then conv_generate_plan model idx conv
         else if state = STATE_SHOWING_ROADMAP then (Plan_Shown_Guidance, conv, idx)
         else (Not_Sure, conv, idx))"

text \<open>
  \<^verbatim>\<open>process_message\<close> at time \<open>now\<close>: fetch the record, stamp it, handle the message, and
  store the record back.
\<close>

definition process_message ::
  "(profile \<Rightarrow> raw_prediction) \<Rightarrow> int \<Rightarrow> catalog_index \<Rightarrow> conversations \<Rightarrow> string \<Rightarrow> string \<Rightarrow>
     response \<times> conversations \<times> catalog_index" where
  "process_message model now idx convs user_id message =
     (case get_user_conversation now user_id convs of
        (conv, convs1) \<Rightarrow>
          (case handle_state model idx (conv\<lparr>last_interaction := now\<rparr>) message of
             (reply, conv', idx') \<Rightarrow> (reply, convs1(user_id \<mapsto> conv'), idx')))"

section \<open>Example data\<close>

definition chicken_breast :: food_item where
  "chicken_breast =
     \<lparr>item_id = ''chicken_breast'', item_name = ''Chicken Breast'', category = ''protein'',
      calories_per_100g = 165, item_protein_g = 31, item_carbs_g = 0, item_fat_g = 36 / 10,
      fiber_g = 0, vegetarian = False, vegan = False, allergens = []\<rparr>"

definition tofu :: food_item where
  "tofu =
     \<lparr>item_id = ''tofu'', item_name = ''Tofu'', category = ''protein'',
      calories_per_100g = 144, item_protein_g = 17, item_carbs_g = 3, item_fat_g = 9,
      fiber_g = 2, vegetarian = True, vegan = True, allergens = [''soy'']\<rparr>"

definition brown_rice :: food_item where
  "brown_rice =
     \<lparr>item_id = ''brown_rice'', item_name = ''Brown Rice'', category = ''grain'',
      calories_per_100g = 112, item_protein_g = 23 / 10, item_carbs_g = 24, item_fat_g = 8 / 10,
      fiber_g = 18 / 10, vegetarian = True, vegan = True, allergens = []\<rparr>"

definition broccoli :: food_item where
  "broccoli =
     \<lparr>item_id = ''broccoli'', item_name = ''Broccoli'', category = ''vegetable'',
      calories_per_100g = 34, item_protein_g = 28 / 10, item_carbs_g = 7, item_fat_g = 4 / 10,
      fiber_g = 26 / 10, vegetarian = True, vegan = True, allergens = []\<rparr>"

definition olive_oil :: food_item where
  "olive_oil =
     \<lparr>item_id = ''olive_oil'', item_name = ''Olive Oil'', category = ''fat'',
      calories_per_100g = 884, item_protein_g = 0, item_carbs_g = 0, item_fat_g = 100,
      fiber_g = 0, vegetarian = True, vegan = True, allergens = []\<rparr>"

text \<open>A five-entry catalog, a protein-only catalog, and their indexes.\<close>

definition example_index :: catalog_index where
  "example_index =
     organize_by_category [tofu, chicken_breast, brown_rice, broccoli, olive_oil] Map.empty"

definition chicken_only :: catalog_index where
  "chicken_only = organize_by_category [chicken_breast] Map.empty"

definition example_model :: "profile \<Rightarrow> raw_prediction" where
  "example_model p = \<lparr>raw_weight = Finite 68, raw_calories = Finite 1900, raw_exercise = Finite 45\<rparr>"

definition example_profile :: profile where
  "example_profile =
     \<lparr>weight_kg = Some 70, height_cm = Some 170, age = None, gender = ''female'',
      activity_level = None, fitness_goal = Some ''muscle_gain'', current_week = 1,
      dietary_restrictions = []\<rparr>"

definition example_conversation :: conversation where
  "example_conversation =
     \<lparr>current_state = STATE_ONBOARDING_AGE, conv_profile = example_profile,
      last_interaction = 0, message_count = 4\<rparr>"

text \<open>The plan the engine builds from the protein-only catalog for 2400 kcal and muscle gain.\<close>

definition chicken_breakfast :: meal where
  "chicken_breakfast =
     \<lparr>foods = [\<lparr>calories = 1437 / 10, protein_g = 27, carbs_g = 0, fat_g = 31 / 10,
                food_id = ''chicken_breast'', food_name = ''Chicken Breast'', portion_g = 87\<rparr>],
      total_calories = 1437 / 10, total_protein_g = 27, total_carbs_g = 0,
      total_fat_g = 31 / 10\<rparr>"

definition chicken_lunch :: meal where
  "chicken_lunch =
     \<lparr>foods = [\<lparr>calories = 1006 / 5, protein_g = 189 / 5, carbs_g = 0, fat_g = 22 / 5,
                food_id = ''chicken_breast'', food_name = ''Chicken Breast'', portion_g = 122\<rparr>],
      total_calories = 1006 / 5, total_protein_g = 189 / 5, total_carbs_g = 0,
      total_fat_g = 22 / 5\<rparr>"

definition chicken_dinner :: meal where
  "chicken_dinner =
     \<lparr>foods = [\<lparr>calories = 345 / 2, protein_g = 162 / 5, carbs_g = 0, fat_g = 19 / 5,
                food_id = ''chicken_breast'', food_name = ''Chicken Breast'', portion_g = 105\<rparr>],
      total_calories = 345 / 2, total_protein_g = 162 / 5, total_carbs_g = 0,
      total_fat_g = 19 / 5\<rparr>"

definition chicken_snack :: meal where
  "chicken_snack =
     \<lparr>foods = [\<lparr>calories = 431 / 5, protein_g = 81 / 5, carbs_g = 0, fat_g = 19 / 10,
                food_id = ''chicken_breast'', food_name = ''Chicken Breast'', portion_g = 52\<rparr>],
      total_calories = 431 / 5, total_protein_g = 81 / 5, total_carbs_g = 0,
      total_fat_g = 19 / 10\<rparr>"

definition chicken_plan :: "(string \<times> meal) list" where
  "chicken_plan =
     [(''breakfast'', chicken_breakfast), (''lunch'', chicken_lunch),
      (''dinner'', chicken_dinner), (''snack'', chicken_snack)]"

definition chicken_summary :: daily_summary where
  "chicken_summary =
     \<lparr>daily_calories = 3018 / 5, daily_protein_g = 567 / 5, daily_carbs_g = 0,
      daily_fat_g = 66 / 5, macro_accuracy = 503 / 20\<rparr>"

text \<open>A complete profile, and plans as the validator may receive them.\<close>

definition ready_profile :: profile where
  "ready_profile =
     \<lparr>weight_kg = Some 70, height_cm = Some 170, age = Some 25, gender = ''female'',
      activity_level = Some ''moderate'', fitness_goal = Some ''muscle_gain'', current_week = 1,
      dietary_restrictions = []\<rparr>"

definition ready_conversation :: conversation where
  "ready_conversation =
     \<lparr>current_state = STATE_READY_FOR_PLAN, conv_profile = ready_profile,
      last_interaction = 0, message_count = 7\<rparr>"

definition cheese_plan :: meal_plan where
  "cheese_plan =
     [(''breakfast'',
       \<lparr>entry_foods = Some [\<lparr>name = ''Oats'', portion = Some 60, allergen_tags = None\<rparr>],
        entry_protein_g = Some 8\<rparr>),
      (''lunch'',
       \<lparr>entry_foods =
          Some [\<lparr>name = ''Brown Rice'', portion = Some 200, allergen_tags = Some []\<rparr>,
                \<lparr>name = ''Cheddar Cheese'', portion = Some 40, allergen_tags = Some [''dairy'']\<rparr>,
                \<lparr>name = ''Peanut Butter'', portion = Some 20,
                 allergen_tags = Some [''peanuts'']\<rparr>],
        entry_protein_g = Some 30\<rparr>)]"

definition messy_plan :: meal_plan where
  "messy_plan =
     [(''breakfast'',
       \<lparr>entry_foods =
          Some [\<lparr>name = ''Olive Oil'', portion = Some 60, allergen_tags = None\<rparr>,
                \<lparr>name = ''Brown Rice'', portion = Some 10, allergen_tags = None\<rparr>],
        entry_protein_g = Some 12\<rparr>),
      (''lunch'',
       \<lparr>entry_foods =
          Some [\<lparr>name = ''Tofu'', portion = Some 700, allergen_tags = Some [''soy'']\<rparr>,
                \<lparr>name = ''Soy Sauce'', portion = Some 2, allergen_tags = Some [''soy'']\<rparr>],
        entry_protein_g = Some 34\<rparr>),
      (''dinner'',
       \<lparr>entry_foods = Some [\<lparr>name = ''Broccoli'', portion = Some 90, allergen_tags = None\<rparr>],
        entry_protein_g = Some 9\<rparr>),
      (''snack'',
       \<lparr>entry_foods = Some [\<lparr>name = ''Broccoli'', portion = Some 90, allergen_tags = None\<rparr>],
        entry_protein_g = Some 2\<rparr>)]"

text \<open>What steps 1 to 4 select from the protein-only catalog for a 250 g protein target.\<close>

definition big_chicken_selection :: selection where
  "big_chicken_selection =
     \<lparr>selected_foods =
        [\<lparr>calories = 3992 / 5, protein_g = 150, carbs_g = 0, fat_g = 87 / 5,
          food_id = ''chicken_breast'', food_name = ''Chicken Breast'', portion_g = 484\<rparr>],
      total_nutrition = \<lparr>calories = 3992 / 5, protein_g = 150, carbs_g = 0, fat_g = 87 / 5\<rparr>\<rparr>"

text \<open>A one-entry catalog whose meals step 5 scales, and the plan built from it.\<close>

definition peanut_butter :: food_item where
  "peanut_butter =
     \<lparr>item_id = ''peanut_butter'', item_name = ''Peanut Butter'', category = ''protein'',
      calories_per_100g = 588, item_protein_g = 25, item_carbs_g = 20, item_fat_g = 50,
      fiber_g = 6, vegetarian = True, vegan = True, allergens = [''peanuts'']\<rparr>"

definition peanut_butter_only :: catalog_index where
  "peanut_butter_only = organize_by_category [peanut_butter] Map.empty"

definition peanut_butter_plan :: "(string \<times> meal) list" where
  "peanut_butter_plan =
     [(''breakfast'',
       \<lparr>foods = [\<lparr>calories = 600, protein_g = 51 / 2, carbs_g = 102 / 5, fat_g = 51,
                  food_id = ''peanut_butter'', food_name = ''Peanut Butter'', portion_g = 102\<rparr>],
        total_calories = 600, total_protein_g = 51 / 2, total_carbs_g = 102 / 5,
        total_fat_g = 51\<rparr>),
      (''lunch'',
       \<lparr>foods = [\<lparr>calories = 840, protein_g = 357 / 10, carbs_g = 57 / 2, fat_g = 357 / 5,
                  food_id = ''peanut_butter'', food_name = ''Peanut Butter'', portion_g = 143\<rparr>],
        total_calories = 840, total_protein_g = 357 / 10, total_carbs_g = 57 / 2,
        total_fat_g = 357 / 5\<rparr>),
      (''dinner'',
       \<lparr>foods = [\<lparr>calories = 720, protein_g = 153 / 5, carbs_g = 49 / 2, fat_g = 306 / 5,
                  food_id = ''peanut_butter'', food_name = ''Peanut Butter'', portion_g = 123\<rparr>],
        total_calories = 720, total_protein_g = 153 / 5, total_carbs_g = 49 / 2,
        total_fat_g = 306 / 5\<rparr>),
      (''snack'',
       \<lparr>foods = [\<lparr>calories = 360, protein_g = 153 / 10, carbs_g = 123 / 10, fat_g = 153 / 5,
                  food_id = ''peanut_butter'', food_name = ''Peanut Butter'', portion_g = 61\<rparr>],
        total_calories = 360, total_protein_g = 153 / 10, total_carbs_g = 123 / 10,
        total_fat_g = 153 / 5\<rparr>)]"

definition peanut_butter_summary :: daily_summary where
  "peanut_butter_summary =
     \<lparr>daily_calories = 2520, daily_protein_g = 1071 / 10, daily_carbs_g = 857 / 10,
      daily_fat_g = 1071 / 5, macro_accuracy = 105\<rparr>"






text \<open>A catalog whose protein list is not in descending protein order.\<close>

definition two_proteins :: catalog_index where
  "two_proteins = organize_by_category [tofu, chicken_breast] Map.empty"

section \<open>The dialogue: reset and session expiry\<close>

lemma reset_tokens_reset:
  assumes "lower (strip message) \<in> {''reset'', ''restart'', ''start over'', ''new''}"
  shows "handle_state model idx conv message =
           (Starting_Fresh,
            conv\<lparr>current_state := STATE_GREETING, conv_profile := fresh_profile,
                 message_count := 0\<rparr>,
            idx)"
  using assms unfolding handle_state_def reset_words_def by (simp add: Let_def)

lemmas text_defs =
  lower_def lower_char_def strip_def is_space_def startswith_def is_digit_def
  char_of_def bit_Suc_0_iff

text \<open>
  C6. In every conversation state, a message whose trimmed, lower-cased text is one of
  "reset", "restart", "start over", "new" sets the state to Greeting and replaces the
  profile: weight, height, age, activity level and goal are unset, the dietary restrictions
  are empty, and gender is the fixed default "female".
\<close>

theorem universal_reset:
  assumes "lower (strip message) \<in> {''reset'', ''restart'', ''start over'', ''new''}"
      and "handle_state model idx conv message = (reply, conv', idx')"
  shows "current_state conv' = STATE_GREETING \<and>
         weight_kg (conv_profile conv') = None \<and>
         height_cm (conv_profile conv') = None \<and>
         age (conv_profile conv') = None \<and>
         activity_level (conv_profile conv') = None \<and>
         fitness_goal (conv_profile conv') = None \<and>
         dietary_restrictions (conv_profile conv') = [] \<and>
         gender (conv_profile conv') = ''female''"
  using assms(2) unfolding reset_tokens_reset [OF assms(1)]
  by (auto simp: fresh_profile_def)

theorem universal_reset_witness:
  "lower (strip ''  Start OVER '') \<in> {''reset'', ''restart'', ''start over'', ''new''} \<and>
   current_state example_conversation = STATE_ONBOARDING_AGE \<and>
   fitness_goal (conv_profile example_conversation) = Some ''muscle_gain'' \<and>
   current_state
     (fst (snd (handle_state example_model example_index example_conversation
                  ''  Start OVER ''))) = STATE_GREETING \<and>
   fitness_goal
     (conv_profile
        (fst (snd (handle_state example_model example_index example_conversation
                     ''  Start OVER '')))) = None"
proof -
  have h: "lower (strip ''  Start OVER '') \<in> {''reset'', ''restart'', ''start over'', ''new''}"
    by (simp add: text_defs)
  obtain r c i where
    e: "handle_state example_model example_index example_conversation ''  Start OVER '' = (r, c, i)"
    by (rule prod_cases3)
  from universal_reset [OF h e] h e show ?thesis
    by (simp add: example_conversation_def example_profile_def)
qed

text \<open>
  C9. A stored conversation whose last interaction lies more than seven days before the
  access is handed out, and stored, with its state set back to Greeting; its profile (and
  so each profile field), its timestamp and its message count are unchanged.
\<close>

theorem stale_session_expiry:
  assumes "convs user_id = Some c"
      and "7 * 24 * 60 * 60 * 1000000 < now - last_interaction c"
      and "get_user_conversation now user_id convs = (c', convs')"
  shows "current_state c' = STATE_GREETING \<and> conv_profile c' = conv_profile c \<and>
         last_interaction c' = last_interaction c \<and> message_count c' = message_count c \<and>
         convs' user_id = Some c'"
  using assms unfolding get_user_conversation_def seven_days_def
  by (auto simp: Let_def)

theorem stale_session_expiry_witness:
  "[''u1'' \<mapsto> example_conversation] ''u1'' = Some example_conversation \<and>
   7 * 24 * 60 * 60 * 1000000 < 604800000001 - last_interaction example_conversation \<and>
   current_state example_conversation = STATE_ONBOARDING_AGE \<and>
   current_state
     (fst (get_user_conversation 604800000001 ''u1'' [''u1'' \<mapsto> example_conversation])) =
     STATE_GREETING \<and>
   conv_profile
     (fst (get_user_conversation 604800000001 ''u1'' [''u1'' \<mapsto> example_conversation])) =
     example_profile"
proof -
  have h1: "[''u1'' \<mapsto> example_conversation] ''u1'' = Some example_conversation" by simp
  have h2: "7 * 24 * 60 * 60 * 1000000 < 604800000001 - last_interaction example_conversation"
    by (simp add: example_conversation_def)
  obtain c s where
    e: "get_user_conversation 604800000001 ''u1'' [''u1'' \<mapsto> example_conversation] = (c, s)"
    by (rule prod.exhaust)
  from stale_session_expiry [OF h1 h2 e] h1 h2 e show ?thesis
    by (simp add: example_conversation_def)
qed

section \<open>The dialogue: numeric input\<close>

lemma set_remove_units: "set (remove_units n s) \<subseteq> set s"
  by (induction n s rule: remove_units.induct) (auto split: option.splits)

lemma set_strip: "set (strip s) \<subseteq> set s"
  unfolding strip_def by (auto dest!: set_dropWhileD)

lemma extract_number_no_digit:
  assumes "\<forall>c \<in> set message. \<not> is_digit c"
  shows "extract_number message = None"
proof -
  have "set (remove_units 0 (strip message)) \<subseteq> set message"
    using set_remove_units [of 0 "strip message"] set_strip [of message] by blast
  with assms have "\<forall>c \<in> set (remove_units 0 (strip message)). \<not> is_digit c" by blast
  then have e: "dropWhile (\<lambda>c. \<not> is_digit c) (remove_units 0 (strip message)) = []"
    by simp
  show ?thesis unfolding extract_number_def e by simp
qed

text \<open>
  C7, as stated: every message without a digit character makes the numeric-field states
  reply with a re-prompt, store nothing and keep the state. The reset words contain no
  digit, and the reset branch runs before the state dispatch: in the age state the message
  "new" is answered with the reset reply, the state becomes Greeting and the stored goal is
  erased.
\<close>

theorem reset_word_in_numeric_state:
  "filter is_digit ''new'' = [] \<and>
   current_state example_conversation = STATE_ONBOARDING_AGE \<and>
   fitness_goal (conv_profile example_conversation) = Some ''muscle_gain'' \<and>
   fst (handle_state example_model example_index example_conversation ''new'') = Starting_Fresh \<and>
   current_state (fst (snd (handle_state example_model example_index example_conversation ''new''))) =
     STATE_GREETING \<and>
   fitness_goal
     (conv_profile (fst (snd (handle_state example_model example_index example_conversation ''new'')))) =
     None"
proof -
  have "lower (strip ''new'') \<in> {''reset'', ''restart'', ''start over'', ''new''}"
    by (simp add: lower_def lower_char_def strip_def is_space_def)
  then show ?thesis
    by (simp add: reset_tokens_reset is_digit_def example_conversation_def example_profile_def
        fresh_profile_def)
qed

text \<open>
  C7, amended: for every message without a digit character the numeric extraction returns
  no value; and unless the trimmed, lower-cased message is one of the reset words, each of
  the weight, height and age states replies with its "need a number" re-prompt and leaves
  the conversation record (state and profile) as it was.
\<close>

theorem no_digit_input_rejected:
  assumes "\<forall>c \<in> set message. \<not> is_digit c"
  shows "extract_number message = None \<and>
         (lower (strip message) \<notin> {''reset'', ''restart'', ''start over'', ''new''} \<longrightarrow>
            (current_state conv = STATE_ONBOARDING_WEIGHT \<longrightarrow>
               handle_state model idx conv message = (Weight_Need_Number, conv, idx)) \<and>
            (current_state conv = STATE_ONBOARDING_HEIGHT \<longrightarrow>
               handle_state model idx conv message = (Height_Need_Number, conv, idx)) \<and>
            (current_state conv = STATE_ONBOARDING_AGE \<longrightarrow>
               handle_state model idx conv message = (Age_Need_Number, conv, idx)))"
  using extract_number_no_digit [OF assms]
  unfolding handle_state_def reset_words_def by (simp add: Let_def)

theorem no_digit_input_rejected_witness:
  "filter is_digit ''seventy'' = [] \<and> extract_number ''seventy'' = None \<and>
   current_state example_conversation = STATE_ONBOARDING_AGE \<and>
   handle_state example_model example_index example_conversation ''seventy'' =
     (Age_Need_Number, example_conversation, example_index)"
proof -
  have d: "\<forall>c \<in> set ''seventy''. \<not> is_digit c" by (simp add: is_digit_def)
  have r: "lower (strip ''seventy'') \<notin> {''reset'', ''restart'', ''start over'', ''new''}"
    by (simp add: lower_def lower_char_def strip_def is_space_def)
  have s: "current_state example_conversation = STATE_ONBOARDING_AGE"
    by (simp add: example_conversation_def)
  from no_digit_input_rejected [OF d, of example_conversation example_model example_index] r s
  show ?thesis by (simp add: is_digit_def)
qed

section \<open>The safety validator\<close>

lemma has_restricted_allergen_iff:
  "has_restricted_allergen rs f \<longleftrightarrow>
     (\<exists>tags tag. allergen_tags f = Some tags \<and> tag \<in> set tags \<and> tag \<in> set rs)"
  unfolding has_restricted_allergen_def list_ex_iff
  by (cases "allergen_tags f") auto

lemma gate1_foods_None_iff:
  "gate1_foods rs n fs = None \<longleftrightarrow> (\<forall>f \<in> set fs. \<not> has_restricted_allergen rs f)"
  by (induction fs) auto

lemma gate1_None_iff:
  "gate1 rs vs = None \<longleftrightarrow> (\<forall>(n, fs) \<in> set vs. \<forall>f \<in> set fs. \<not> has_restricted_allergen rs f)"
  by (induction vs) (auto simp: gate1_foods_None_iff split: option.splits)

lemma gate1_foods_first:
  assumes "\<forall>g \<in> set fs1. \<not> has_restricted_allergen rs g" and "has_restricted_allergen rs f"
  shows "gate1_foods rs n (fs1 @ f # fs2) = Some (AllergenViolation (name f) n)"
  using assms by (induction fs1) auto

lemma gate1_first:
  assumes "\<forall>(m, fs) \<in> set pre. \<forall>g \<in> set fs. \<not> has_restricted_allergen rs g"
      and "\<forall>g \<in> set fs1. \<not> has_restricted_allergen rs g" and "has_restricted_allergen rs f"
  shows "gate1 rs (pre @ (n, fs1 @ f # fs2) # post) = Some (AllergenViolation (name f) n)"
  using assms(1)
proof (induction pre)
  case Nil
  then show ?case using gate1_foods_first [OF assms(2,3)] by simp
next
  case (Cons a pre)
  obtain m fs where a: "a = (m, fs)" by (cases a)
  from Cons.prems a have "gate1_foods rs m fs = None"
    by (simp add: gate1_foods_None_iff)
  with Cons a show ?case by simp
qed

lemma visited_Nil: "visited [] = []"
  by (simp add: visited_def)

lemma visited_Cons:
  "visited ((m, e) # plan) =
     (if m = ''daily_summary'' then []
      else (case entry_foods e of None \<Rightarrow> [] | Some fs \<Rightarrow> [(m, fs)])) @ visited plan"
  by (simp add: visited_def)

lemma visited_iff:
  "(n, fs) \<in> set (visited plan) \<longleftrightarrow>
     n \<noteq> ''daily_summary'' \<and> (\<exists>e. (n, e) \<in> set plan \<and> entry_foods e = Some fs)"
proof (induction plan)
  case Nil
  then show ?case by (simp add: visited_Nil)
next
  case (Cons a plan)
  obtain m e where a: "a = (m, e)" by (cases a)
  show ?case
    unfolding a visited_Cons using Cons.IH
    by (cases "entry_foods e") auto
qed

text \<open>
  The validator alone. The meals of a plan are its entries other than
  \<^verbatim>\<open>daily_summary\<close>. If a food of some meal has an \<^verbatim>\<open>allergens\<close> list with a tag
  that is among the restrictions, the validator returns \<open>ok = False\<close>.
\<close>

lemma allergen_exclusion:
  assumes "(meal_name, entry) \<in> set plan" and "meal_name \<noteq> ''daily_summary''"
      and "entry_foods entry = Some fs" and "food \<in> set fs"
      and "allergen_tags food = Some tags" and "tag \<in> set tags" and "tag \<in> set restrictions"
  shows "fst (validate_meal_plan plan daily_target_calories restrictions) = False"
proof -
  have "(meal_name, fs) \<in> set (visited plan)"
    using assms(1-3) by (auto simp: visited_iff)
  moreover have "has_restricted_allergen restrictions food"
    using assms(5-7) by (auto simp: has_restricted_allergen_iff)
  ultimately have "gate1 restrictions (visited plan) \<noteq> None"
    using assms(4) by (auto simp: gate1_None_iff)
  then show ?thesis
    unfolding validate_meal_plan_def by (auto split: option.splits)
qed

lemma gate2_empty_iff:
  "gate2 vs = [] \<longleftrightarrow> (\<forall>(m, fs) \<in> set vs. \<forall>g \<in> set fs. gate2_food g = [])"
  unfolding gate2_def by auto

lemma gate2_food_empty_iff:
  "gate2_food g = [] \<longleftrightarrow>
     (let p = (case portion g of None \<Rightarrow> 0 | Some q \<Rightarrow> q)
      in if is_tiny_ok (name g) then 5 \<le> p \<and> p \<le> 50 else 15 \<le> p \<and> p \<le> 600)"
  unfolding gate2_food_def by (auto simp: Let_def)

lemma gate3_empty_iff:
  "gate3 plan = [] \<longleftrightarrow>
     (\<forall>m \<in> {''breakfast'', ''lunch'', ''dinner''}. \<forall>e. map_of plan m = Some e \<longrightarrow>
        15 \<le> (case entry_protein_g e of None \<Rightarrow> 0 | Some q \<Rightarrow> q))"
  unfolding gate3_def gate3_meal_def by (auto simp: Let_def split: option.splits)

lemma set_gate2:
  "v \<in> set (gate2 vs) \<longleftrightarrow> (\<exists>m fs g. (m, fs) \<in> set vs \<and> g \<in> set fs \<and> v \<in> set (gate2_food g))"
proof (induction vs)
  case Nil
  then show ?case by (simp add: gate2_def)
next
  case (Cons a vs)
  obtain m fs where a: "a = (m, fs)" by (cases a)
  have "gate2 (a # vs) = concat (map gate2_food fs) @ gate2 vs"
    by (simp add: gate2_def a)
  then have "v \<in> set (gate2 (a # vs)) \<longleftrightarrow>
      (\<exists>g. g \<in> set fs \<and> v \<in> set (gate2_food g)) \<or> v \<in> set (gate2 vs)"
    by auto
  with Cons show ?case unfolding a by auto
qed

lemma set_gate2_food:
  "v \<in> set (gate2_food g) \<longleftrightarrow>
     (\<exists>p. p = (case portion g of None \<Rightarrow> 0 | Some q \<Rightarrow> q) \<and>
        (is_tiny_ok (name g) \<and> (p < 5 \<or> 50 < p) \<and> v = CondimentPortionUnusual (name g) p \<or>
         \<not> is_tiny_ok (name g) \<and> p < 15 \<and> v = PortionTooSmall (name g) p \<or>
         \<not> is_tiny_ok (name g) \<and> 600 < p \<and> v = PortionTooLarge (name g) p))"
  unfolding gate2_food_def by (auto simp: Let_def)

lemma set_gate2_visited:
  "v \<in> set (gate2 (visited plan)) \<longleftrightarrow>
     (\<exists>m e fs g p. (m, e) \<in> set plan \<and> m \<noteq> ''daily_summary'' \<and> entry_foods e = Some fs \<and>
        g \<in> set fs \<and> p = (case portion g of None \<Rightarrow> 0 | Some q \<Rightarrow> q) \<and>
        (is_tiny_ok (name g) \<and> (p < 5 \<or> 50 < p) \<and> v = CondimentPortionUnusual (name g) p \<or>
         \<not> is_tiny_ok (name g) \<and> p < 15 \<and> v = PortionTooSmall (name g) p \<or>
         \<not> is_tiny_ok (name g) \<and> 600 < p \<and> v = PortionTooLarge (name g) p))"
  (is "?L \<longleftrightarrow> ?R")
proof
  assume ?L
  then obtain m fs g where "(m, fs) \<in> set (visited plan)" and g: "g \<in> set fs"
    and v: "v \<in> set (gate2_food g)"
    unfolding set_gate2 by blast
  then obtain e where "(m, e) \<in> set plan" "m \<noteq> ''daily_summary''" "entry_foods e = Some fs"
    unfolding visited_iff by blast
  with g v [unfolded set_gate2_food] show ?R by blast
next
  assume ?R
  then obtain m e fs g p where pl: "(m, e) \<in> set plan" "m \<noteq> ''daily_summary''"
    "entry_foods e = Some fs" and g: "g \<in> set fs"
    and p: "p = (case portion g of None \<Rightarrow> 0 | Some q \<Rightarrow> q) \<and>
        (is_tiny_ok (name g) \<and> (p < 5 \<or> 50 < p) \<and> v = CondimentPortionUnusual (name g) p \<or>
         \<not> is_tiny_ok (name g) \<and> p < 15 \<and> v = PortionTooSmall (name g) p \<or>
         \<not> is_tiny_ok (name g) \<and> 600 < p \<and> v = PortionTooLarge (name g) p)"
    by blast
  from p have v: "v \<in> set (gate2_food g)" unfolding set_gate2_food by blast
  from pl have "(m, fs) \<in> set (visited plan)" unfolding visited_iff by blast
  with g v show ?L unfolding set_gate2 by blast
qed

lemma set_gate3_meal:
  "v \<in> set (gate3_meal plan m) \<longleftrightarrow>
     (\<exists>e p. map_of plan m = Some e \<and>
        p = (case entry_protein_g e of None \<Rightarrow> 0 | Some q \<Rightarrow> q) \<and> p < 15 \<and> v = LowProtein m p)"
  by (cases "map_of plan m") (auto simp: gate3_meal_def Let_def)

lemma set_gate3:
  "v \<in> set (gate3 plan) \<longleftrightarrow>
     (\<exists>m e p. m \<in> {''breakfast'', ''lunch'', ''dinner''} \<and> map_of plan m = Some e \<and>
        p = (case entry_protein_g e of None \<Rightarrow> 0 | Some q \<Rightarrow> q) \<and> p < 15 \<and> v = LowProtein m p)"
proof -
  have "v \<in> set (gate3 plan) \<longleftrightarrow>
      v \<in> set (gate3_meal plan ''breakfast'') \<or> v \<in> set (gate3_meal plan ''lunch'') \<or>
      v \<in> set (gate3_meal plan ''dinner'')"
    by (simp add: gate3_def)
  also have "\<dots> \<longleftrightarrow> (\<exists>m. m \<in> {''breakfast'', ''lunch'', ''dinner''} \<and> v \<in> set (gate3_meal plan m))"
    by blast
  finally show ?thesis unfolding set_gate3_meal by blast
qed

lemma length_gate2_food:
  "length (gate2_food g) =
     (if (let p = (case portion g of None \<Rightarrow> 0 | Some q \<Rightarrow> q)
          in if is_tiny_ok (name g) then 5 \<le> p \<and> p \<le> 50 else 15 \<le> p \<and> p \<le> 600)
      then 0 else 1)"
  unfolding gate2_food_def by (auto simp: Let_def)

lemma length_concat_gate2_food:
  "length (concat (map gate2_food fs)) =
     length (filter (\<lambda>g. \<not> (let p = (case portion g of None \<Rightarrow> 0 | Some q \<Rightarrow> q)
          in if is_tiny_ok (name g) then 5 \<le> p \<and> p \<le> 50 else 15 \<le> p \<and> p \<le> 600)) fs)"
proof (induction fs)
  case Nil
  then show ?case by simp
next
  case (Cons g fs)
  then show ?case by (simp add: length_gate2_food)
qed

lemma length_gate2:
  "length (gate2 vs) =
     length (filter (\<lambda>g. \<not> (let p = (case portion g of None \<Rightarrow> 0 | Some q \<Rightarrow> q)
          in if is_tiny_ok (name g) then 5 \<le> p \<and> p \<le> 50 else 15 \<le> p \<and> p \<le> 600))
        (concat (map snd vs)))"
proof (induction vs)
  case Nil
  then show ?case by (simp add: gate2_def)
next
  case (Cons a vs)
  obtain m fs where a: "a = (m, fs)" by (cases a)
  have "gate2 (a # vs) = concat (map gate2_food fs) @ gate2 vs"
    by (simp add: gate2_def a)
  with Cons show ?case by (simp add: a length_concat_gate2_food)
qed

lemma length_gate3_meal:
  "length (gate3_meal plan m) =
     (if (case map_of plan m of
            None \<Rightarrow> False
          | Some e \<Rightarrow> (case entry_protein_g e of None \<Rightarrow> 0 | Some q \<Rightarrow> q) < 15)
      then 1 else 0)"
  by (cases "map_of plan m") (simp_all add: gate3_meal_def Let_def)

lemma length_gate3:
  "length (gate3 plan) =
     length (filter (\<lambda>m. case map_of plan m of
                            None \<Rightarrow> False
                          | Some e \<Rightarrow> (case entry_protein_g e of None \<Rightarrow> 0 | Some q \<Rightarrow> q) < 15)
        [''breakfast'', ''lunch'', ''dinner''])"
  unfolding gate3_def by (simp add: length_gate3_meal)

text \<open>
  C5. Gate 1 short-circuits: when the first food, in iteration order, that carries a
  restricted allergen is \<open>f\<close> in meal \<open>n\<close>, the result is \<open>False\<close> with that one
  violation. When no food of a meal carries a restricted allergen, gates 2 and 3 report
  every violation and nothing else: the list holds a portion violation for a food exactly
  when the food belongs to a meal and lies outside [5, 50] g (name matching the condiment
  and oil list) or outside [15, 600] g (any other name), it holds a low-protein violation
  exactly for those of breakfast, lunch and dinner that are present with less than 15 g of
  protein (never for the snack), its length is the number of offending foods plus the
  number of such meals, and the result is \<open>True\<close> exactly when the list is empty.
\<close>

theorem validation_gates:
  "(visited plan = pre @ (n, fs1 @ f # fs2) # post \<and>
    (\<forall>(m, fs) \<in> set pre. \<forall>g \<in> set fs. \<not> has_restricted_allergen rs g) \<and>
    (\<forall>g \<in> set fs1. \<not> has_restricted_allergen rs g) \<and> has_restricted_allergen rs f \<longrightarrow>
    validate_meal_plan plan t rs = (False, [AllergenViolation (name f) n])) \<and>
   ((\<forall>m e fs g. (m, e) \<in> set plan \<and> m \<noteq> ''daily_summary'' \<and> entry_foods e = Some fs \<and>
        g \<in> set fs \<longrightarrow> \<not> has_restricted_allergen rs g) \<longrightarrow>
    fst (validate_meal_plan plan t rs) = (snd (validate_meal_plan plan t rs) = []) \<and>
    (\<forall>v. v \<in> set (snd (validate_meal_plan plan t rs)) \<longleftrightarrow>
       (\<exists>m e fs g p. (m, e) \<in> set plan \<and> m \<noteq> ''daily_summary'' \<and> entry_foods e = Some fs \<and>
          g \<in> set fs \<and> p = (case portion g of None \<Rightarrow> 0 | Some q \<Rightarrow> q) \<and>
          (is_tiny_ok (name g) \<and> (p < 5 \<or> 50 < p) \<and> v = CondimentPortionUnusual (name g) p \<or>
           \<not> is_tiny_ok (name g) \<and> p < 15 \<and> v = PortionTooSmall (name g) p \<or>
           \<not> is_tiny_ok (name g) \<and> 600 < p \<and> v = PortionTooLarge (name g) p)) \<or>
       (\<exists>m e p. m \<in> {''breakfast'', ''lunch'', ''dinner''} \<and> map_of plan m = Some e \<and>
          p = (case entry_protein_g e of None \<Rightarrow> 0 | Some q \<Rightarrow> q) \<and> p < 15 \<and>
          v = LowProtein m p)) \<and>
    length (snd (validate_meal_plan plan t rs)) =
      length (filter (\<lambda>g. \<not> (let p = (case portion g of None \<Rightarrow> 0 | Some q \<Rightarrow> q)
                in if is_tiny_ok (name g) then 5 \<le> p \<and> p \<le> 50 else 15 \<le> p \<and> p \<le> 600))
              (concat (map snd (visited plan)))) +
      length (filter (\<lambda>m. case map_of plan m of
                             None \<Rightarrow> False
                           | Some e \<Rightarrow> (case entry_protein_g e of None \<Rightarrow> 0 | Some q \<Rightarrow> q) < 15)
              [''breakfast'', ''lunch'', ''dinner'']))"
proof (intro conjI impI)
  assume a: "visited plan = pre @ (n, fs1 @ f # fs2) # post \<and>
    (\<forall>(m, fs) \<in> set pre. \<forall>g \<in> set fs. \<not> has_restricted_allergen rs g) \<and>
    (\<forall>g \<in> set fs1. \<not> has_restricted_allergen rs g) \<and> has_restricted_allergen rs f"
  then have "gate1 rs (visited plan) = Some (AllergenViolation (name f) n)"
    using gate1_first [of pre rs fs1 f n fs2 post] by simp
  then show "validate_meal_plan plan t rs = (False, [AllergenViolation (name f) n])"
    unfolding validate_meal_plan_def by simp
next
  assume na: "\<forall>m e fs g. (m, e) \<in> set plan \<and> m \<noteq> ''daily_summary'' \<and> entry_foods e = Some fs \<and>
        g \<in> set fs \<longrightarrow> \<not> has_restricted_allergen rs g"
  then have "gate1 rs (visited plan) = None"
    unfolding gate1_None_iff by (auto simp: visited_iff)
  then have res: "validate_meal_plan plan t rs =
      (gate2 (visited plan) @ gate3 plan = [], gate2 (visited plan) @ gate3 plan)"
    unfolding validate_meal_plan_def by (simp add: Let_def)
  show "fst (validate_meal_plan plan t rs) = (snd (validate_meal_plan plan t rs) = [])"
    unfolding res by simp
  show "\<forall>v. v \<in> set (snd (validate_meal_plan plan t rs)) \<longleftrightarrow>
       (\<exists>m e fs g p. (m, e) \<in> set plan \<and> m \<noteq> ''daily_summary'' \<and> entry_foods e = Some fs \<and>
          g \<in> set fs \<and> p = (case portion g of None \<Rightarrow> 0 | Some q \<Rightarrow> q) \<and>
          (is_tiny_ok (name g) \<and> (p < 5 \<or> 50 < p) \<and> v = CondimentPortionUnusual (name g) p \<or>
           \<not> is_tiny_ok (name g) \<and> p < 15 \<and> v = PortionTooSmall (name g) p \<or>
           \<not> is_tiny_ok (name g) \<and> 600 < p \<and> v = PortionTooLarge (name g) p)) \<or>
       (\<exists>m e p. m \<in> {''breakfast'', ''lunch'', ''dinner''} \<and> map_of plan m = Some e \<and>
          p = (case entry_protein_g e of None \<Rightarrow> 0 | Some q \<Rightarrow> q) \<and> p < 15 \<and>
          v = LowProtein m p)"
    unfolding res snd_conv set_append Un_iff set_gate2_visited set_gate3 by blast
  show "length (snd (validate_meal_plan plan t rs)) =
      length (filter (\<lambda>g. \<not> (let p = (case portion g of None \<Rightarrow> 0 | Some q \<Rightarrow> q)
                in if is_tiny_ok (name g) then 5 \<le> p \<and> p \<le> 50 else 15 \<le> p \<and> p \<le> 600))
              (concat (map snd (visited plan)))) +
      length (filter (\<lambda>m. case map_of plan m of
                             None \<Rightarrow> False
                           | Some e \<Rightarrow> (case entry_protein_g e of None \<Rightarrow> 0 | Some q \<Rightarrow> q) < 15)
              [''breakfast'', ''lunch'', ''dinner''])"
    unfolding res snd_conv length_append length_gate2 length_gate3 ..
qed

theorem validation_gates_witness:
  "validate_meal_plan cheese_plan 2000 [''peanuts'', ''dairy''] =
     (False, [AllergenViolation ''Cheddar Cheese'' ''lunch'']) \<and>
   fst (validate_meal_plan messy_plan 2000 [''dairy'']) = False \<and>
   CondimentPortionUnusual ''Olive Oil'' 60 \<in> set (snd (validate_meal_plan messy_plan 2000 [''dairy''])) \<and>
   PortionTooSmall ''Brown Rice'' 10 \<in> set (snd (validate_meal_plan messy_plan 2000 [''dairy''])) \<and>
   PortionTooLarge ''Tofu'' 700 \<in> set (snd (validate_meal_plan messy_plan 2000 [''dairy''])) \<and>
   CondimentPortionUnusual ''Soy Sauce'' 2 \<in> set (snd (validate_meal_plan messy_plan 2000 [''dairy''])) \<and>
   LowProtein ''breakfast'' 12 \<in> set (snd (validate_meal_plan messy_plan 2000 [''dairy''])) \<and>
   LowProtein ''dinner'' 9 \<in> set (snd (validate_meal_plan messy_plan 2000 [''dairy''])) \<and>
   length (snd (validate_meal_plan messy_plan 2000 [''dairy''])) = 6"
proof -
  let ?rice = "\<lparr>name = ''Brown Rice'', portion = Some 200, allergen_tags = Some []\<rparr>"
  let ?cheese = "\<lparr>name = ''Cheddar Cheese'', portion = Some 40, allergen_tags = Some [''dairy'']\<rparr>"
  let ?pb = "\<lparr>name = ''Peanut Butter'', portion = Some 20, allergen_tags = Some [''peanuts'']\<rparr>"
  let ?oats = "\<lparr>name = ''Oats'', portion = Some 60, allergen_tags = None\<rparr>"
  have v: "visited cheese_plan = [(''breakfast'', [?oats])] @ (''lunch'', [?rice] @ ?cheese # [?pb]) # []"
    by (simp add: cheese_plan_def visited_def)
  have p: "\<forall>(m, fs) \<in> set [(''breakfast'', [?oats])]. \<forall>g \<in> set fs.
             \<not> has_restricted_allergen [''peanuts'', ''dairy''] g"
    by (simp add: has_restricted_allergen_def)
  have q: "\<forall>g \<in> set [?rice]. \<not> has_restricted_allergen [''peanuts'', ''dairy''] g"
    by (simp add: has_restricted_allergen_def)
  have r: "has_restricted_allergen [''peanuts'', ''dairy''] ?cheese"
    by (simp add: has_restricted_allergen_def)
  have first: "validate_meal_plan cheese_plan 2000 [''peanuts'', ''dairy''] =
     (False, [AllergenViolation ''Cheddar Cheese'' ''lunch''])"
    using validation_gates [of cheese_plan "[(''breakfast'', [?oats])]" "''lunch''" "[?rice]"
        ?cheese "[?pb]" "[]" "[''peanuts'', ''dairy'']" 2000] v p q r
    by simp
  let ?res = "validate_meal_plan messy_plan 2000 [''dairy'']"
  have n: "\<forall>m e fs g. (m, e) \<in> set messy_plan \<and> m \<noteq> ''daily_summary'' \<and>
             entry_foods e = Some fs \<and> g \<in> set fs \<longrightarrow> \<not> has_restricted_allergen [''dairy''] g"
    by (auto simp: messy_plan_def has_restricted_allergen_def)
  note g = validation_gates [of messy_plan "[]" "''x''" "[]" ?oats "[]" "[]" "[''dairy'']" 2000,
      THEN conjunct2, THEN mp, OF n]
  note mem = g [THEN conjunct2, THEN conjunct1, THEN spec]
  have tiny: "is_tiny_ok ''Olive Oil''" "\<not> is_tiny_ok ''Brown Rice''" "\<not> is_tiny_ok ''Tofu''"
    "is_tiny_ok ''Soy Sauce''" "\<not> is_tiny_ok ''Broccoli''"
    by code_simp+
  have vis: "concat (map snd (visited messy_plan)) =
      [\<lparr>name = ''Olive Oil'', portion = Some 60, allergen_tags = None\<rparr>,
       \<lparr>name = ''Brown Rice'', portion = Some 10, allergen_tags = None\<rparr>,
       \<lparr>name = ''Tofu'', portion = Some 700, allergen_tags = Some [''soy'']\<rparr>,
       \<lparr>name = ''Soy Sauce'', portion = Some 2, allergen_tags = Some [''soy'']\<rparr>,
       \<lparr>name = ''Broccoli'', portion = Some 90, allergen_tags = None\<rparr>,
       \<lparr>name = ''Broccoli'', portion = Some 90, allergen_tags = None\<rparr>]"
    by (simp add: messy_plan_def visited_def)
  have len: "length (snd ?res) = 6"
    unfolding g [THEN conjunct2, THEN conjunct2] vis
    by (simp add: tiny messy_plan_def)
  have nonempty: "snd ?res \<noteq> []" using len by auto
  have ok: "fst ?res = False" using g [THEN conjunct1] nonempty by simp
  have m1: "CondimentPortionUnusual ''Olive Oil'' 60 \<in> set (snd ?res)"
    unfolding mem
    by (rule disjI1, rule exI [of _ "''breakfast''"], rule exI [of _ "snd (messy_plan ! 0)"],
        rule exI [of _ "the (entry_foods (snd (messy_plan ! 0)))"],
        rule exI [of _ "\<lparr>name = ''Olive Oil'', portion = Some 60, allergen_tags = None\<rparr>"],
        rule exI [of _ 60]) (simp add: messy_plan_def tiny)
  have m2: "PortionTooSmall ''Brown Rice'' 10 \<in> set (snd ?res)"
    unfolding mem
    by (rule disjI1, rule exI [of _ "''breakfast''"], rule exI [of _ "snd (messy_plan ! 0)"],
        rule exI [of _ "the (entry_foods (snd (messy_plan ! 0)))"],
        rule exI [of _ "\<lparr>name = ''Brown Rice'', portion = Some 10, allergen_tags = None\<rparr>"],
        rule exI [of _ 10]) (simp add: messy_plan_def tiny)
  have m3: "PortionTooLarge ''Tofu'' 700 \<in> set (snd ?res)"
    unfolding mem
    by (rule disjI1, rule exI [of _ "''lunch''"], rule exI [of _ "snd (messy_plan ! 1)"],
        rule exI [of _ "the (entry_foods (snd (messy_plan ! 1)))"],
        rule exI [of _ "\<lparr>name = ''Tofu'', portion = Some 700, allergen_tags = Some [''soy'']\<rparr>"],
        rule exI [of _ 700]) (simp add: messy_plan_def tiny)
  have m4: "CondimentPortionUnusual ''Soy Sauce'' 2 \<in> set (snd ?res)"
    unfolding mem
    by (rule disjI1, rule exI [of _ "''lunch''"], rule exI [of _ "snd (messy_plan ! 1)"],
        rule exI [of _ "the (entry_foods (snd (messy_plan ! 1)))"],
        rule exI [of _ "\<lparr>name = ''Soy Sauce'', portion = Some 2, allergen_tags = Some [''soy'']\<rparr>"],
        rule exI [of _ 2]) (simp add: messy_plan_def tiny)
  have m5: "LowProtein ''breakfast'' 12 \<in> set (snd ?res)"
    unfolding mem
    by (rule disjI2, rule exI [of _ "''breakfast''"], rule exI [of _ "snd (messy_plan ! 0)"],
        rule exI [of _ 12]) (simp add: messy_plan_def)
  have m6: "LowProtein ''dinner'' 9 \<in> set (snd ?res)"
    unfolding mem
    by (rule disjI2, rule exI [of _ "''dinner''"], rule exI [of _ "snd (messy_plan ! 2)"],
        rule exI [of _ 9]) (simp add: messy_plan_def)
  from first ok m1 m2 m3 m4 m5 m6 len show ?thesis by blast
qed

section \<open>The engine's own validation\<close>

lemma build_meals_names:
  "build_meals idx t dm rs shares = (Inr mp, idx') \<Longrightarrow> map fst mp = map fst shares"
proof (induction shares arbitrary: idx mp)
  case Nil
  then show ?case by simp
next
  case (Cons a shares)
  obtain nm pct where a: "a = (nm, pct)" by (cases a)
  obtain dp dc df where dm: "dm = (dp, dc, df)" by (cases dm)
  from Cons.prems show ?case
    unfolding a dm
    by (auto split: prod.splits sum.splits dest: Cons.IH [unfolded dm])
qed

lemma generate_plan_SuccessD:
  assumes "generate_plan idx t g rs = (Success mp s, idx')"
  shows "\<exists>dm. calculate_macros t g = Inr dm \<and>
           build_meals idx t dm rs MEAL_DISTRIBUTION = (Inr mp, idx') \<and>
           t \<noteq> 0 \<and> protein_errors mp = [] \<and> portion_errors mp = [] \<and>
           daily_calories s = round1 (sum_list (map (\<lambda>(n, m). total_calories m) mp))"
  using assms unfolding generate_plan_def validate_safety_def
  by (auto simp: Let_def split: sum.splits prod.splits if_splits)

lemma chicken_only_2400:
  "fst (generate_plan chicken_only 2400 ''muscle_gain'' []) = Success chicken_plan chicken_summary"
  by code_simp

lemma chicken_plan_valid: "validate_meal_plan (as_meal_plan chicken_plan) 2400 [] = (True, [])"
  by code_simp

lemma chicken_only_2400_pair:
  "generate_plan chicken_only 2400 ''muscle_gain'' [] =
     (Success chicken_plan chicken_summary, snd (generate_plan chicken_only 2400 ''muscle_gain'' []))"
  using chicken_only_2400 by (metis prod.collapse)

text \<open>
  C10. A plan returned with status success has the four meals, each of breakfast, lunch
  and dinner with at least 20 g of protein, no portion above 500 g, and therefore passes
  the external validator's 15 g protein gate; any other plan is returned with status error.
\<close>

theorem engine_prevalidation:
  assumes "generate_plan idx target goal restrictions = (Success mp s, idx')"
  shows "map fst mp = [''breakfast'', ''lunch'', ''dinner'', ''snack''] \<and>
         (\<forall>(n, m) \<in> set mp. n \<in> {''breakfast'', ''lunch'', ''dinner''} \<longrightarrow> 20 \<le> total_protein_g m) \<and>
         (\<forall>(n, m) \<in> set mp. \<forall>f \<in> set (foods m). portion_g f \<le> 500) \<and>
         gate3 (as_meal_plan mp) = []"
proof -
  from generate_plan_SuccessD [OF assms] obtain dm where
    bm: "build_meals idx target dm restrictions MEAL_DISTRIBUTION = (Inr mp, idx')"
    and pe: "protein_errors mp = []" and qe: "portion_errors mp = []"
    by blast
  have names: "map fst mp = [''breakfast'', ''lunch'', ''dinner'', ''snack'']"
    using build_meals_names [OF bm] by (simp add: MEAL_DISTRIBUTION_def)
  have prot: "\<forall>(n, m) \<in> set mp. n \<in> {''breakfast'', ''lunch'', ''dinner''} \<longrightarrow> 20 \<le> total_protein_g m"
    using pe unfolding protein_errors_def main_meals_def MIN_PROTEIN_PER_MEAL_def
    by (auto split: if_splits)
  have port: "\<forall>(n, m) \<in> set mp. \<forall>f \<in> set (foods m). portion_g f \<le> 500"
    using qe unfolding portion_errors_def MIN_PORTION_def MAX_PORTION_def
    by (fastforce split: if_splits)
  have "\<And>m e. m \<in> {''breakfast'', ''lunch'', ''dinner''} \<Longrightarrow> map_of (as_meal_plan mp) m = Some e \<Longrightarrow>
          15 \<le> (case entry_protein_g e of None \<Rightarrow> 0 | Some q \<Rightarrow> q)"
  proof -
    fix m e assume m: "m \<in> {''breakfast'', ''lunch'', ''dinner''}"
      and e: "map_of (as_meal_plan mp) m = Some e"
    from e have "(m, e) \<in> set (as_meal_plan mp)" by (rule map_of_SomeD)
    then obtain ml where "(m, ml) \<in> set mp" and "e = as_plan_entry ml"
      unfolding as_meal_plan_def by auto
    with prot m show "15 \<le> (case entry_protein_g e of None \<Rightarrow> 0 | Some q \<Rightarrow> q)"
      by (auto simp: as_plan_entry_def)
  qed
  then have "gate3 (as_meal_plan mp) = []"
    unfolding gate3_empty_iff by blast
  with names prot port show ?thesis by blast
qed

theorem engine_prevalidation_witness:
  "fst (generate_plan chicken_only 2400 ''muscle_gain'' []) = Success chicken_plan chicken_summary \<and>
   map fst chicken_plan = [''breakfast'', ''lunch'', ''dinner'', ''snack''] \<and>
   20 \<le> total_protein_g chicken_breakfast \<and> 20 \<le> total_protein_g chicken_lunch \<and>
   20 \<le> total_protein_g chicken_dinner \<and>
   list_all (\<lambda>f. portion_g f \<le> 500) (foods chicken_lunch) \<and>
   gate3 (as_meal_plan chicken_plan) = []"
proof -
  note t = engine_prevalidation [OF chicken_only_2400_pair]
  from t have a: "\<forall>(n, m) \<in> set chicken_plan.
      n \<in> {''breakfast'', ''lunch'', ''dinner''} \<longrightarrow> 20 \<le> total_protein_g m" by blast
  from t have b: "\<forall>(n, m) \<in> set chicken_plan. \<forall>f \<in> set (foods m). portion_g f \<le> 500" by blast
  have "20 \<le> total_protein_g chicken_breakfast \<and> 20 \<le> total_protein_g chicken_lunch \<and>
        20 \<le> total_protein_g chicken_dinner"
    using a by (simp add: chicken_plan_def)
  moreover have "list_all (\<lambda>f. portion_g f \<le> 500) (foods chicken_lunch)"
    using b by (simp add: chicken_plan_def list_all_iff)
  ultimately show ?thesis using t chicken_only_2400 by blast
qed

section \<open>The predictor's floor in the pipeline\<close>

lemma py_int_lower: "of_int k \<le> x \<Longrightarrow> 0 \<le> k \<Longrightarrow> k \<le> py_int x"
  unfolding py_int_def by (auto simp: le_floor_iff)

lemma muscle_gain_detected:
  "fitness_goal p = Some ''muscle_gain'' \<Longrightarrow> is_muscle_gain p"
  unfolding is_muscle_gain_def goal_lower_def
  by (simp add: text_defs)

lemma predict_muscle_gain_floor:
  assumes "fitness_goal p = Some ''muscle_gain''" and "gender p \<noteq> ''male''"
      and "predict raw p = Inr rm"
  shows "2400 \<le> target_calories rm"
proof -
  have "(2400::rat) \<le> floored_calories p (defensive_calories (raw_calories raw))"
    using muscle_gain_detected [OF assms(1)] assms(2)
    by (simp add: floored_calories_def Let_def)
  then have "2400 \<le> py_int (floored_calories p (defensive_calories (raw_calories raw)))"
    by (intro py_int_lower) simp_all
  moreover have "target_calories rm = py_int (floored_calories p (defensive_calories (raw_calories raw)))"
    using assms(3) unfolding predict_def by (auto split: sum.splits)
  ultimately show ?thesis by simp
qed

lemma conv_generate_plan_ResponseD:
  assumes "conv_generate_plan model idx conv = (Plan_Response p rm mp w, conv', idx')"
  shows "p = conv_profile conv \<and> predict (model p) p = Inr rm \<and> fitness_goal p \<noteq> None \<and>
         (\<exists>s. generate_plan idx (target_calories rm)
                 (case fitness_goal p of None \<Rightarrow> ''None'' | Some g \<Rightarrow> g)
                 (dietary_restrictions p) = (Success mp s, idx')) \<and>
         fst (validate_meal_plan (as_meal_plan mp) (target_calories rm) (dietary_restrictions p)) \<and>
         conv' = conv\<lparr>current_state := STATE_SHOWING_ROADMAP\<rparr>"
  using assms unfolding conv_generate_plan_def adapt_model2_to_model3_def missing_fields_def
  by (auto simp: Let_def split: if_splits sum.splits prod.splits plan_result.splits)

lemma example_predict:
  "predict (example_model ready_profile) ready_profile =
     Inr \<lparr>target_weight_kg = Finite 68, target_calories = 2400, target_exercise_minutes = 45,
          roadmap_goal = Some ''muscle_gain'', roadmap_restrictions = []\<rparr>"
  by code_simp

lemma ready_plan_response:
  "conv_generate_plan example_model chicken_only ready_conversation =
     (Plan_Response ready_profile
        \<lparr>target_weight_kg = Finite 68, target_calories = 2400, target_exercise_minutes = 45,
         roadmap_goal = Some ''muscle_gain'', roadmap_restrictions = []\<rparr>
        chicken_plan 1,
      ready_conversation\<lparr>current_state := STATE_SHOWING_ROADMAP\<rparr>,
      snd (generate_plan chicken_only 2400 ''muscle_gain'' []))"
proof -
  have m: "missing_fields ready_profile = []"
    by (simp add: missing_fields_def ready_profile_def)
  have c: "conv_profile ready_conversation = ready_profile"
    by (simp add: ready_conversation_def)
  have r: "dietary_restrictions ready_profile = []" "fitness_goal ready_profile = Some ''muscle_gain''"
    "current_week ready_profile = 1"
    by (simp_all add: ready_profile_def)
  define idx' where "idx' = snd (generate_plan chicken_only 2400 ''muscle_gain'' [])"
  have e: "generate_plan chicken_only 2400 ''muscle_gain'' [] =
             (Success chicken_plan chicken_summary, idx')"
    unfolding idx'_def by (rule chicken_only_2400_pair)
  show ?thesis
    unfolding conv_generate_plan_def Let_def c
    by (simp add: m example_predict adapt_model2_to_model3_def r e chicken_plan_valid)
qed

text \<open>
  C8. When the dialogue shows a plan for a muscle-gain profile with the default gender,
  the target the predictor returned is at least 2200 kcal (the predictor's floor for this
  profile is 2400), and that same target was handed to the engine, which produced the plan
  shown, and to the validator, which accepted it.
\<close>

theorem muscle_gain_target_floor:
  assumes "conv_generate_plan model idx conv = (Plan_Response p rm mp w, conv', idx')"
      and "fitness_goal (conv_profile conv) = Some ''muscle_gain''"
      and "gender (conv_profile conv) = ''female''"
  shows "2200 \<le> target_calories rm \<and>
         m3_target_calories (adapt_model2_to_model3 rm (conv_profile conv)) = target_calories rm \<and>
         (\<exists>s. generate_plan idx (target_calories rm) ''muscle_gain''
                 (dietary_restrictions (conv_profile conv)) = (Success mp s, idx')) \<and>
         fst (validate_meal_plan (as_meal_plan mp) (target_calories rm)
                (dietary_restrictions (conv_profile conv)))"
proof -
  from conv_generate_plan_ResponseD [OF assms(1)] have
    p: "p = conv_profile conv" and pr: "predict (model p) p = Inr rm"
    and g: "\<exists>s. generate_plan idx (target_calories rm)
                 (case fitness_goal p of None \<Rightarrow> ''None'' | Some g \<Rightarrow> g)
                 (dietary_restrictions p) = (Success mp s, idx')"
    and v: "fst (validate_meal_plan (as_meal_plan mp) (target_calories rm) (dietary_restrictions p))"
    by blast+
  have "2400 \<le> target_calories rm"
    using predict_muscle_gain_floor [OF _ _ pr] assms(2,3) p by simp
  then show ?thesis
    using g v p assms(2) by (simp add: adapt_model2_to_model3_def)
qed

theorem muscle_gain_target_floor_witness:
  "fitness_goal (conv_profile ready_conversation) = Some ''muscle_gain'' \<and>
   gender (conv_profile ready_conversation) = ''female'' \<and>
   raw_calories (example_model ready_profile) = Finite 1900 \<and>
   fst (conv_generate_plan example_model chicken_only ready_conversation) =
     Plan_Response ready_profile
       \<lparr>target_weight_kg = Finite 68, target_calories = 2400, target_exercise_minutes = 45,
        roadmap_goal = Some ''muscle_gain'', roadmap_restrictions = []\<rparr>
       chicken_plan 1 \<and>
   (2200::int) \<le> 2400 \<and>
   fst (validate_meal_plan (as_meal_plan chicken_plan) 2400 [])"
proof -
  have g: "fitness_goal (conv_profile ready_conversation) = Some ''muscle_gain''"
    and f: "gender (conv_profile ready_conversation) = ''female''"
    and d: "dietary_restrictions (conv_profile ready_conversation) = []"
    by (simp_all add: ready_conversation_def ready_profile_def)
  from muscle_gain_target_floor [OF ready_plan_response g f] g f d ready_plan_response
  show ?thesis by (simp add: example_model_def)
qed

section \<open>Step 5 of build_meal\<close>

lemma big_chicken_select:
  "fst (select_foods chicken_only 250 0 0 []) = Inr big_chicken_selection"
  by code_simp

lemma big_chicken_select_pair:
  "select_foods chicken_only 250 0 0 [] =
     (Inr big_chicken_selection, snd (select_foods chicken_only 250 0 0 []))"
  using big_chicken_select by (metis prod.collapse)

text \<open>
  C3, as stated: the portions are scaled exactly when the total deviates from the meal's
  calorie target by more than 3% and the factor lies in [0.7, 1.3]. From the protein-only
  catalog, a 250 g protein target selects 484 g of chicken with 798.4 kcal. Against a
  target of 775 kcal that total is 3.02% above the target and the factor 775 / 798.4 lies
  in [0.7, 1.3], yet the meal is returned as selected: the code compares the factor with 1,
  and 1 - 775 / 798.4 is 0.0293.
\<close>

theorem unscaled_in_band:
  "fst (select_foods chicken_only 250 0 0 []) = Inr big_chicken_selection \<and>
   calories (total_nutrition big_chicken_selection) = 7984 / 10 \<and>
   (3 / 100 :: rat) < \<bar>7984 / 10 - 775\<bar> / 775 \<and>
   (7 / 10 :: rat) \<le> 775 / (7984 / 10) \<and> (775 / (7984 / 10) :: rat) \<le> 13 / 10 \<and>
   fst (build_meal chicken_only 775 250 0 0 []) =
     Inr \<lparr>foods =
            [\<lparr>calories = 7984 / 10, protein_g = 150, carbs_g = 0, fat_g = 174 / 10,
              food_id = ''chicken_breast'', food_name = ''Chicken Breast'', portion_g = 484\<rparr>],
          total_calories = 7984 / 10, total_protein_g = 150, total_carbs_g = 0,
          total_fat_g = 174 / 10\<rparr>"
proof -
  have "fst (build_meal chicken_only 775 250 0 0 []) =
     Inr \<lparr>foods =
            [\<lparr>calories = 7984 / 10, protein_g = 150, carbs_g = 0, fat_g = 174 / 10,
              food_id = ''chicken_breast'', food_name = ''Chicken Breast'', portion_g = 484\<rparr>],
          total_calories = 7984 / 10, total_protein_g = 150, total_carbs_g = 0,
          total_fat_g = 174 / 10\<rparr>"
    by code_simp
  moreover have "calories (total_nutrition big_chicken_selection) = 7984 / 10"
    by (simp add: big_chicken_selection_def)
  ultimately show ?thesis using big_chicken_select by simp
qed

text \<open>
  C3, amended: with \<open>total\<close> the calories of the selection and
  \<open>k = meal_calories / total\<close>, step 5 replaces every selected portion by
  \<open>portion * k\<close> rounded to a whole number, and each nutrition value by its product with
  \<open>k\<close> rounded to one decimal, if and only if \<open>total > 0\<close>, \<open>|1 - k| > 0.03\<close> and
  \<open>0.7 \<le> k \<le> 1.3\<close>; in every other case the foods are exactly those selected.
\<close>

theorem scale_to_target_step:
  assumes "select_foods idx meal_protein meal_carbs meal_fat restrictions = (Inr sel, idx')"
  shows "\<exists>m. build_meal idx meal_calories meal_protein meal_carbs meal_fat restrictions = (Inr m, idx') \<and>
           foods m =
             (let total = calories (total_nutrition sel); k = of_int meal_calories / total
              in if 0 < total \<and> 3 / 100 < \<bar>1 - k\<bar> \<and> 7 / 10 \<le> k \<and> k \<le> 13 / 10
                 then map (\<lambda>f. f\<lparr>portion_g := round0 (portion_g f * k),
                                   calories := round1 (calories f * k),
                                   protein_g := round1 (protein_g f * k),
                                   carbs_g := round1 (carbs_g f * k),
                                   fat_g := round1 (fat_g f * k)\<rparr>) (selected_foods sel)
                 else selected_foods sel)"
  unfolding build_meal_def assms
  by (simp add: finish_meal_def scale_to_target_def scales_def scale_factor_def scale_food_def
      Let_def)

theorem scale_to_target_step_witness:
  "fst (select_foods chicken_only 250 0 0 []) = Inr big_chicken_selection \<and>
   calories (total_nutrition big_chicken_selection) = 7984 / 10 \<and>
   (3 / 100 :: rat) < \<bar>1 - 750 / (7984 / 10)\<bar> \<and>
   map portion_g (selected_foods big_chicken_selection) = [484] \<and>
   map portion_g (case fst (build_meal chicken_only 750 250 0 0 []) of Inr m \<Rightarrow> foods m | Inl e \<Rightarrow> []) = [455] \<and>
   map calories (case fst (build_meal chicken_only 750 250 0 0 []) of Inr m \<Rightarrow> foods m | Inl e \<Rightarrow> []) = [750]"
proof -
  from scale_to_target_step [OF big_chicken_select_pair, of 750] obtain m where
    b: "build_meal chicken_only 750 250 0 0 [] = (Inr m, snd (select_foods chicken_only 250 0 0 []))"
    and f: "foods m =
             (let total = calories (total_nutrition big_chicken_selection); k = of_int 750 / total
              in if 0 < total \<and> 3 / 100 < \<bar>1 - k\<bar> \<and> 7 / 10 \<le> k \<and> k \<le> 13 / 10
                 then map (\<lambda>f. f\<lparr>portion_g := round0 (portion_g f * k),
                                   calories := round1 (calories f * k),
                                   protein_g := round1 (protein_g f * k),
                                   carbs_g := round1 (carbs_g f * k),
                                   fat_g := round1 (fat_g f * k)\<rparr>) (selected_foods big_chicken_selection)
                 else selected_foods big_chicken_selection)"
    by blast
  have "map portion_g (foods m) = [455] \<and> map calories (foods m) = [750]"
    unfolding f by code_simp
  with b big_chicken_select show ?thesis
    by (simp add: big_chicken_selection_def)
qed

section \<open>Calorie accuracy of a plan\<close>

lemma round_half_even_error: "\<bar>of_int (round_half_even x) - x\<bar> \<le> 1 / 2"
proof -
  have "of_int \<lfloor>x\<rfloor> \<le> x" and "x < of_int \<lfloor>x\<rfloor> + 1" by linarith+
  then show ?thesis
    unfolding round_half_even_def Let_def by (auto simp: abs_le_iff)
qed

lemma round1_error: "\<bar>round1 x - x\<bar> \<le> 1 / 20"
proof -
  have "\<bar>of_int (round_half_even (x * 10)) - x * 10\<bar> \<le> 1 / 2"
    by (rule round_half_even_error)
  then show ?thesis unfolding round1_def by (simp add: abs_le_iff field_simps)
qed

lemma sum_round1_error:
  "\<bar>sum_list (map (\<lambda>f. round1 (g f)) fs) - sum_list (map g fs)\<bar> \<le> of_nat (length fs) / 20"
proof (induction fs)
  case Nil
  then show ?case by simp
next
  case (Cons a fs)
  have 1: "\<bar>round1 (g a) - g a\<bar> \<le> 1 / 20" by (rule round1_error)
  have 2: "sum_list (map (\<lambda>f. round1 (g f)) (a # fs)) =
             round1 (g a) + sum_list (map (\<lambda>f. round1 (g f)) fs)" by simp
  have 3: "sum_list (map g (a # fs)) = g a + sum_list (map g fs)" by simp
  have 4: "(of_nat (length (a # fs)) :: rat) / 20 = of_nat (length fs) / 20 + 1 / 20"
    by (simp add: add_divide_distrib)
  show ?case unfolding 2 3 4 using 1 Cons by linarith
qed

lemma tallied_empty: "tallied 0 empty_selection"
  by (simp add: tallied_def empty_selection_def)

lemma tallied_select_food: "tallied n sel \<Longrightarrow> tallied (Suc n) (select_food sel food p)"
  by (simp add: tallied_def select_food_def Let_def add_nutrition_def)

lemma tallied_mono: "tallied n sel \<Longrightarrow> n \<le> m \<Longrightarrow> tallied m sel"
  by (simp add: tallied_def)

lemma tallied_step_protein:
  "tallied n sel \<Longrightarrow> step_protein idx mp rs sel = (Inr sel', idx') \<Longrightarrow> tallied (Suc n) sel'"
  unfolding step_protein_def
  by (auto simp: Let_def split: list.splits if_splits
      intro: tallied_select_food tallied_mono)

lemma tallied_step_grain:
  "tallied n sel \<Longrightarrow> step_grain idx mc rs sel = Inr sel' \<Longrightarrow> tallied (Suc n) sel'"
  unfolding step_grain_def
  by (auto simp: Let_def split: list.splits if_splits
      intro: tallied_select_food tallied_mono)

lemma tallied_step_vegetable:
  "tallied n sel \<Longrightarrow> step_vegetable idx rs sel = (sel', idx') \<Longrightarrow> tallied (Suc n) sel'"
  unfolding step_vegetable_def
  by (auto simp: Let_def split: list.splits if_splits
      intro: tallied_select_food tallied_mono)

lemma tallied_step_fat:
  "tallied n sel \<Longrightarrow> step_fat idx mf rs sel = (Inr sel', idx') \<Longrightarrow> tallied (Suc n) sel'"
  unfolding step_fat_def
  by (auto simp: Let_def split: list.splits if_splits
      intro: tallied_select_food tallied_mono)

lemma tallied_select_foods:
  assumes "select_foods idx mp mc mf rs = (Inr sel, idx')"
  shows "tallied 4 sel"
proof -
  from assms obtain sel1 idx1 sel2 sel3 idx3 where
    1: "step_protein idx mp rs empty_selection = (Inr sel1, idx1)" and
    2: "step_grain idx1 mc rs sel1 = Inr sel2" and
    3: "step_vegetable idx1 rs sel2 = (sel3, idx3)" and
    4: "step_fat idx3 mf rs sel3 = (Inr sel, idx')"
    unfolding select_foods_def by (auto split: prod.splits sum.splits)
  have t1: "tallied (Suc 0) sel1" by (rule tallied_step_protein [OF tallied_empty 1])
  have t2: "tallied (Suc (Suc 0)) sel2" by (rule tallied_step_grain [OF t1 2])
  have t3: "tallied (Suc (Suc (Suc 0))) sel3" by (rule tallied_step_vegetable [OF t2 3])
  have "tallied (Suc (Suc (Suc (Suc 0)))) sel" by (rule tallied_step_fat [OF t3 4])
  then show ?thesis by (simp add: eval_nat_numeral)
qed

lemma sum_list_scaled: "sum_list (map (\<lambda>f. calories f * k) fs) = sum_list (map calories fs) * (k::rat)"
  by (induction fs) (simp_all add: algebra_simps)

lemma scaled_total:
  assumes "tallied 4 sel" and "scales c sel"
  shows "\<bar>total_calories (finish_meal (scale_to_target c sel)) - of_int c\<bar> \<le> 1 / 4"
proof -
  let ?k = "scale_factor c sel"
  let ?fs = "selected_foods sel"
  let ?s = "sum_list (map (\<lambda>f. round1 (calories f * ?k)) ?fs)"
  from assms(2) have pos: "0 < calories (total_nutrition sel)" by (simp add: scales_def)
  have tot: "total_calories (finish_meal (scale_to_target c sel)) = round1 ?s"
    using assms(2)
    by (simp add: finish_meal_def scale_to_target_def Let_def sum_nutrition_def scale_food_def
        comp_def)
  have "sum_list (map (\<lambda>f. calories f * ?k) ?fs) = calories (total_nutrition sel) * ?k"
    using assms(1) by (simp add: sum_list_scaled tallied_def)
  also have "\<dots> = of_int c" using pos by (simp add: scale_factor_def)
  finally have ex: "sum_list (map (\<lambda>f. calories f * ?k) ?fs) = of_int c" .
  have "\<bar>?s - sum_list (map (\<lambda>f. calories f * ?k) ?fs)\<bar> \<le> of_nat (length ?fs) / 20"
    by (rule sum_round1_error)
  moreover have "(of_nat (length ?fs) :: rat) \<le> 4"
    using assms(1) by (simp add: tallied_def)
  ultimately have "\<bar>?s - of_int c\<bar> \<le> 4 / 20" unfolding ex by linarith
  moreover have "\<bar>round1 ?s - ?s\<bar> \<le> 1 / 20" by (rule round1_error)
  ultimately show ?thesis unfolding tot by linarith
qed

lemma unscaled_total:
  assumes "\<not> scales c sel" and "factor_in_range (c, sel)"
  shows "of_int c * (100 / 103) - 1 / 20 \<le> total_calories (finish_meal (scale_to_target c sel)) \<and>
         total_calories (finish_meal (scale_to_target c sel)) \<le> of_int c * (100 / 97) + 1 / 20"
proof -
  let ?t = "calories (total_nutrition sel)"
  from assms(2) have pos: "0 < ?t" by (simp add: factor_in_range_def)
  from assms have "\<bar>1 - of_int c / ?t\<bar> \<le> 3 / 100"
    by (auto simp: scales_def factor_in_range_def scale_factor_def)
  then have "97 / 100 \<le> of_int c / ?t" and "of_int c / ?t \<le> 103 / 100"
    by linarith+
  with pos have "97 / 100 * ?t \<le> of_int c" and "of_int c \<le> 103 / 100 * ?t"
    by (simp_all add: pos_le_divide_eq pos_divide_le_eq)
  then have b: "of_int c * (100 / 103) \<le> ?t" "?t \<le> of_int c * (100 / 97)" by simp_all
  have tot: "total_calories (finish_meal (scale_to_target c sel)) = round1 ?t"
    using assms(1) by (simp add: finish_meal_def scale_to_target_def)
  have "\<bar>round1 ?t - ?t\<bar> \<le> 1 / 20" by (rule round1_error)
  with b show ?thesis unfolding tot by (intro conjI) linarith+
qed

lemma meal_total_bounds:
  assumes "tallied 4 sel" and "factor_in_range (c, sel)" and "0 \<le> c"
  shows "of_int c * (100 / 103) - 1 / 4 \<le> total_calories (finish_meal (scale_to_target c sel)) \<and>
         total_calories (finish_meal (scale_to_target c sel)) \<le> of_int c * (100 / 97) + 1 / 4"
proof (cases "scales c sel")
  case True
  have "0 \<le> (of_int c :: rat)" using assms(3) by simp
  then have "of_int c * (100 / 103) \<le> (of_int c :: rat)" "(of_int c :: rat) \<le> of_int c * (100 / 97)"
    by simp_all
  with scaled_total [OF assms(1) True] show ?thesis by (intro conjI) linarith+
next
  case False
  from unscaled_total [OF False assms(2)] show ?thesis by simp
qed

lemma build_meal_InrD:
  assumes "build_meal idx c mp mc mf rs = (Inr m, idx')"
  shows "\<exists>sel. select_foods idx mp mc mf rs = (Inr sel, idx') \<and>
               m = finish_meal (scale_to_target c sel)"
  using assms unfolding build_meal_def by (auto split: prod.splits sum.splits)

lemma build_meals_selections:
  "build_meals idx t dm rs shares = (Inr mp, idx') \<Longrightarrow>
     map snd mp =
       map (\<lambda>cs. finish_meal (scale_to_target (fst cs) (snd cs)))
         (meal_selections idx t dm rs shares) \<and>
     map fst (meal_selections idx t dm rs shares) =
       map (\<lambda>np. py_int (of_int t * snd np)) shares \<and>
     list_all (\<lambda>cs. tallied 4 (snd cs)) (meal_selections idx t dm rs shares)"
proof (induction shares arbitrary: idx mp)
  case Nil
  then show ?case by simp
next
  case (Cons a shares)
  obtain nm pct where a: "a = (nm, pct)" by (cases a)
  obtain dp dc df where dm: "dm = (dp, dc, df)" by (cases dm)
  from Cons.prems obtain m idx1 ms where
    b: "build_meal idx (py_int (of_int t * pct)) (dp * pct) (dc * pct) (df * pct) rs = (Inr m, idx1)"
    and r: "build_meals idx1 t dm rs shares = (Inr ms, idx')" and mp: "mp = (nm, m) # ms"
    unfolding a dm by (auto split: prod.splits sum.splits)
  from build_meal_InrD [OF b] obtain sel where
    s: "select_foods idx (dp * pct) (dc * pct) (df * pct) rs = (Inr sel, idx1)"
    and m: "m = finish_meal (scale_to_target (py_int (of_int t * pct)) sel)"
    by blast
  have ms: "meal_selections idx t dm rs (a # shares) =
              (py_int (of_int t * pct), sel) # meal_selections idx1 t dm rs shares"
    unfolding a dm by (simp add: s)
  from Cons.IH [OF r] tallied_select_foods [OF s] show ?case
    unfolding ms mp m by (simp add: a)
qed

lemma py_int_nonneg_bounds:
  assumes "0 \<le> x"
  shows "x - 1 < of_int (py_int x) \<and> of_int (py_int x) \<le> x \<and> 0 \<le> py_int x"
  using assms unfolding py_int_def by (auto simp: floor_less_iff) linarith+

lemma peanut_butter_2400:
  "fst (generate_plan peanut_butter_only 2400 ''muscle_gain'' [''vegan'']) =
     Success peanut_butter_plan peanut_butter_summary"
  by code_simp

lemma peanut_butter_2400_factors:
  "list_all factor_in_range (plan_selections peanut_butter_only 2400 ''muscle_gain'' [''vegan''])"
  by code_simp

text \<open>
  C2, as stated: every plan returned with status success has daily calories within 10% of
  the target. From the protein-only catalog, 2400 kcal for muscle gain gives four meals of
  chicken alone; each is far below its meal target, so its scale factor is above 1.3 and
  step 5 leaves it unscaled. The plan passes the engine's check and is returned with
  status success, with 603.6 kcal for a target of 2400.
\<close>

theorem degenerate_plan_off_target:
  "fst (generate_plan chicken_only 2400 ''muscle_gain'' []) = Success chicken_plan chicken_summary \<and>
   daily_calories chicken_summary = 6036 / 10 \<and>
   \<not> \<bar>6036 / 10 - 2400\<bar> / 2400 \<le> (1 / 10 :: rat)"
  using chicken_only_2400 by (simp add: chicken_summary_def)

text \<open>
  C2, amended: for every input with a target of at least 100 kcal on which generate_plan
  returns status success, and for which every meal's selection has calories and a scale
  factor within [0.7, 1.3] (so that step 5 either scales the meal or finds it within 3%),
  the summed daily calories deviate from the target by at most 10% of the target.
\<close>

theorem daily_calories_within_tolerance:
  assumes "generate_plan idx target goal restrictions = (Success mp s, idx')"
      and "100 \<le> target"
      and "list_all factor_in_range (plan_selections idx target goal restrictions)"
  shows "\<bar>daily_calories s - of_int target\<bar> / of_int target \<le> 1 / 10"
proof -
  from generate_plan_SuccessD [OF assms(1)] obtain dm where
    cm: "calculate_macros target goal = Inr dm" and
    bm: "build_meals idx target dm restrictions MEAL_DISTRIBUTION = (Inr mp, idx')" and
    dc: "daily_calories s = round1 (sum_list (map (\<lambda>(n, m). total_calories m) mp))"
    by blast
  let ?sels = "meal_selections idx target dm restrictions MEAL_DISTRIBUTION"
  let ?T = "of_int target :: rat"
  have ps: "plan_selections idx target goal restrictions = ?sels"
    by (simp add: plan_selections_def cm)
  note E = build_meals_selections [OF bm]
  from E have "map fst ?sels =
      [py_int (?T * (25 / 100)), py_int (?T * (35 / 100)), py_int (?T * (30 / 100)),
       py_int (?T * (15 / 100))]"
    by (simp add: MEAL_DISTRIBUTION_def)
  then obtain s1 s2 s3 s4 where sels: "?sels =
      [(py_int (?T * (25 / 100)), s1), (py_int (?T * (35 / 100)), s2),
       (py_int (?T * (30 / 100)), s3), (py_int (?T * (15 / 100)), s4)]"
    by (auto simp: map_eq_Cons_conv)
  let ?c1 = "py_int (?T * (25 / 100))" and ?c2 = "py_int (?T * (35 / 100))"
  let ?c3 = "py_int (?T * (30 / 100))" and ?c4 = "py_int (?T * (15 / 100))"
  let ?t1 = "total_calories (finish_meal (scale_to_target ?c1 s1))"
  let ?t2 = "total_calories (finish_meal (scale_to_target ?c2 s2))"
  let ?t3 = "total_calories (finish_meal (scale_to_target ?c3 s3))"
  let ?t4 = "total_calories (finish_meal (scale_to_target ?c4 s4))"
  have T: "100 \<le> ?T" using assms(2) by simp
  have c1: "?T * (25 / 100) - 1 < of_int ?c1 \<and> of_int ?c1 \<le> ?T * (25 / 100) \<and> 0 \<le> ?c1"
    using T by (intro py_int_nonneg_bounds) simp
  have c2: "?T * (35 / 100) - 1 < of_int ?c2 \<and> of_int ?c2 \<le> ?T * (35 / 100) \<and> 0 \<le> ?c2"
    using T by (intro py_int_nonneg_bounds) simp
  have c3: "?T * (30 / 100) - 1 < of_int ?c3 \<and> of_int ?c3 \<le> ?T * (30 / 100) \<and> 0 \<le> ?c3"
    using T by (intro py_int_nonneg_bounds) simp
  have c4: "?T * (15 / 100) - 1 < of_int ?c4 \<and> of_int ?c4 \<le> ?T * (15 / 100) \<and> 0 \<le> ?c4"
    using T by (intro py_int_nonneg_bounds) simp
  from E have tl: "tallied 4 s1" "tallied 4 s2" "tallied 4 s3" "tallied 4 s4"
    unfolding sels by simp_all
  from assms(3) have fr: "factor_in_range (?c1, s1)" "factor_in_range (?c2, s2)"
    "factor_in_range (?c3, s3)" "factor_in_range (?c4, s4)"
    unfolding ps sels by simp_all
  have b1: "of_int ?c1 * (100 / 103) - 1 / 4 \<le> ?t1 \<and> ?t1 \<le> of_int ?c1 * (100 / 97) + 1 / 4"
    using tl(1) fr(1) c1 by (intro meal_total_bounds) simp_all
  have b2: "of_int ?c2 * (100 / 103) - 1 / 4 \<le> ?t2 \<and> ?t2 \<le> of_int ?c2 * (100 / 97) + 1 / 4"
    using tl(2) fr(2) c2 by (intro meal_total_bounds) simp_all
  have b3: "of_int ?c3 * (100 / 103) - 1 / 4 \<le> ?t3 \<and> ?t3 \<le> of_int ?c3 * (100 / 97) + 1 / 4"
    using tl(3) fr(3) c3 by (intro meal_total_bounds) simp_all
  have b4: "of_int ?c4 * (100 / 103) - 1 / 4 \<le> ?t4 \<and> ?t4 \<le> of_int ?c4 * (100 / 97) + 1 / 4"
    using tl(4) fr(4) c4 by (intro meal_total_bounds) simp_all
  have "map (\<lambda>(n, m). total_calories m) mp = map total_calories (map snd mp)"
    by (simp add: case_prod_unfold comp_def)
  also have "\<dots> = [?t1, ?t2, ?t3, ?t4]"
    using E unfolding sels by simp
  finally have sum: "sum_list (map (\<lambda>(n, m). total_calories m) mp) = ?t1 + ?t2 + ?t3 + ?t4"
    by simp
  have r: "\<bar>round1 (?t1 + ?t2 + ?t3 + ?t4) - (?t1 + ?t2 + ?t3 + ?t4)\<bar> \<le> 1 / 20"
    by (rule round1_error)
  have "\<bar>daily_calories s - ?T\<bar> \<le> ?T / 10"
    unfolding dc sum using r b1 b2 b3 b4 c1 c2 c3 c4 T by linarith
  moreover have "0 < ?T" using T by linarith
  ultimately show ?thesis by (simp add: pos_divide_le_eq)
qed

theorem daily_calories_within_tolerance_witness:
  "fst (generate_plan peanut_butter_only 2400 ''muscle_gain'' [''vegan'']) =
     Success peanut_butter_plan peanut_butter_summary \<and>
   (100::int) \<le> 2400 \<and>
   list_all factor_in_range (plan_selections peanut_butter_only 2400 ''muscle_gain'' [''vegan'']) \<and>
   daily_calories peanut_butter_summary = 2520 \<and>
   \<bar>daily_calories peanut_butter_summary - 2400\<bar> / 2400 \<le> 1 / 10"
proof -
  have e: "generate_plan peanut_butter_only 2400 ''muscle_gain'' [''vegan''] =
             (Success peanut_butter_plan peanut_butter_summary,
              snd (generate_plan peanut_butter_only 2400 ''muscle_gain'' [''vegan'']))"
    using peanut_butter_2400 by (metis prod.collapse)
  have h: "(100::int) \<le> 2400" by simp
  from daily_calories_within_tolerance [OF e h peanut_butter_2400_factors]
    peanut_butter_2400 peanut_butter_2400_factors
  show ?thesis by (simp add: peanut_butter_summary_def)
qed

section \<open>Allergens in the pipeline\<close>

text \<open>
  The foods \<^verbatim>\<open>build_meal\<close> puts into a plan have no \<^verbatim>\<open>allergens\<close> key, so on a plan
  that comes from the engine gate 1 finds nothing, whatever the restrictions.
\<close>

lemma engine_food_untagged: "\<not> has_restricted_allergen rs (as_plan_food f)"
  by (simp add: has_restricted_allergen_iff as_plan_food_def)

lemma engine_plan_passes_gate1: "gate1 rs (visited (as_meal_plan mp)) = None"
proof -
  have "\<And>n fs g. (n, fs) \<in> set (visited (as_meal_plan mp)) \<Longrightarrow> g \<in> set fs \<Longrightarrow>
          \<not> has_restricted_allergen rs g"
  proof -
    fix n fs g
    assume "(n, fs) \<in> set (visited (as_meal_plan mp))" and g: "g \<in> set fs"
    then obtain e where "(n, e) \<in> set (as_meal_plan mp)" and e: "entry_foods e = Some fs"
      by (auto simp: visited_iff)
    then obtain m where "e = as_plan_entry m" by (auto simp: as_meal_plan_def)
    with e have "fs = map as_plan_food (foods m)" by (simp add: as_plan_entry_def)
    with g show "\<not> has_restricted_allergen rs g" by (auto simp: engine_food_untagged)
  qed
  then show ?thesis unfolding gate1_None_iff by blast
qed






section \<open>The catalog index under build_meal\<close>

text \<open>
  C4: \<^verbatim>\<open>build_meal\<close> should perform no mutation of shared state. With no restrictions,
  \<^verbatim>\<open>_filter_by_restrictions\<close> returns the stored protein list itself and step 1 sorts it
  in place: an index whose protein list is tofu (17 g) then chicken breast (31 g) holds
  chicken breast then tofu after one call.
\<close>

theorem build_meal_reorders_catalog:
  "two_proteins ''protein'' = Some [tofu, chicken_breast] \<and>
   snd (build_meal two_proteins 600 45 75 (133 / 10) []) ''protein'' = Some [chicken_breast, tofu]"
  by code_simp

text \<open>
  The reordering does not reach the results: the sort is stable and sorting a sorted list
  changes nothing, so a second call of \<^verbatim>\<open>generate_plan\<close> with the same inputs, on the
  index the first call left, returns the same result and leaves that index as it is.
\<close>

lemma set_insert_desc: "set (insert_desc key z zs) = insert z (set zs)"
  by (induction zs) auto

lemma insert_desc_sorted:
  "sorted_wrt (\<lambda>a b. key b \<le> key a) (x # ys) \<Longrightarrow> insert_desc key x ys = x # ys"
  by (cases ys) auto

lemma sorted_insert_desc:
  "sorted_wrt (\<lambda>a b. key b \<le> key a) ys \<Longrightarrow>
     sorted_wrt (\<lambda>a b. key b \<le> key a) (insert_desc key x ys)"
  by (induction ys) (auto simp: set_insert_desc)

lemma sorted_sort_desc: "sorted_wrt (\<lambda>a b. key b \<le> key a) (sort_desc key xs)"
  unfolding sort_desc_def by (induction xs) (simp_all add: sorted_insert_desc)

lemma sort_desc_sorted:
  "sorted_wrt (\<lambda>a b. key b \<le> key a) xs \<Longrightarrow> sort_desc key xs = xs"
proof (induction xs)
  case Nil
  then show ?case by (simp add: sort_desc_def)
next
  case (Cons x xs)
  then have "sort_desc key xs = xs" by simp
  then have "sort_desc key (x # xs) = insert_desc key x xs" by (simp add: sort_desc_def)
  with Cons.prems show ?case by (simp only: insert_desc_sorted)
qed

lemma sort_desc_idem: "sort_desc key (sort_desc key xs) = sort_desc key xs"
  by (rule sort_desc_sorted) (rule sorted_sort_desc)

lemma sort_desc_Nil [simp]: "sort_desc key [] = []"
  by (simp add: sort_desc_def)

lemma sort_desc_Cons_not_Nil: "sort_desc key (x # xs) \<noteq> []"
  unfolding sort_desc_def by (cases "foldr (insert_desc key) xs []") auto

lemma map_option_sort_idem:
  "map_option (sort_desc key) (map_option (sort_desc key) x) = map_option (sort_desc key) x"
  by (cases x) (simp_all add: sort_desc_idem)

lemma sorted_view_refl: "sorted_view s s"
  by (simp add: sorted_view_def)

lemma sorted_viewD:
  "sorted_view s u \<Longrightarrow>
     u c = s c \<or>
     (c = ''protein'' \<and> u c = map_option (sort_desc item_protein_g) (s c)) \<or>
     (c = ''vegetable'' \<and>
      u c = map_option (sort_desc (\<lambda>x. (item_id x \<in> set veg_priority, fiber_g x))) (s c)) \<or>
     (c = ''fat'' \<and> u c = map_option (sort_desc (\<lambda>x. item_id x \<in> set fat_priority)) (s c))"
  unfolding sorted_view_def by (erule allE [of _ c])

lemma sorted_view_trans:
  assumes "sorted_view s t" and "sorted_view t u"
  shows "sorted_view s u"
  unfolding sorted_view_def
proof
  fix c
  from sorted_viewD [OF assms(1), of c] sorted_viewD [OF assms(2), of c]
  show "u c = s c \<or>
          (c = ''protein'' \<and> u c = map_option (sort_desc item_protein_g) (s c)) \<or>
          (c = ''vegetable'' \<and>
           u c = map_option (sort_desc (\<lambda>x. (item_id x \<in> set veg_priority, fiber_g x))) (s c)) \<or>
          (c = ''fat'' \<and>
           u c = map_option (sort_desc (\<lambda>x. item_id x \<in> set fat_priority)) (s c))"
    by (elim disjE conjE) (simp_all add: map_option_sort_idem)
qed

lemma settlingI:
  assumes "\<And>s. sorted_view s (snd (f s))"
      and "\<And>s u. sorted_view s u \<Longrightarrow> sorted_view (snd (f s)) u \<Longrightarrow> f u = (fst (f s), u)"
  shows "settling f"
  unfolding settling_def using assms by blast

lemma settling_view: "settling f \<Longrightarrow> f s = (x, s') \<Longrightarrow> sorted_view s s'"
  unfolding settling_def by (drule spec [of _ s]) simp

lemma settling_same:
  "settling f \<Longrightarrow> f s = (x, s') \<Longrightarrow> sorted_view s u \<Longrightarrow> sorted_view s' u \<Longrightarrow> f u = (x, u)"
  unfolding settling_def by (drule spec [of _ s]) simp

lemma settling_return: "settling (\<lambda>s. (x, s))"
  by (rule settlingI) (simp_all add: sorted_view_refl)

lemma settling_read:
  assumes "\<And>s u. sorted_view s u \<Longrightarrow> h u = h s"
  shows "settling (\<lambda>s. (h s, s))"
  by (rule settlingI) (simp_all add: sorted_view_refl assms)

lemma settling_bind:
  assumes f: "settling f" and g: "\<And>x. settling (g x)"
  shows "settling (\<lambda>s. case f s of (x, s1) \<Rightarrow> g x s1)"
proof (rule settlingI)
  fix s
  obtain x s1 where fs: "f s = (x, s1)" by (cases "f s")
  obtain y s2 where gs: "g x s1 = (y, s2)" by (cases "g x s1")
  have v1: "sorted_view s s1" by (rule settling_view [OF f fs])
  have v2: "sorted_view s1 s2" by (rule settling_view [OF g gs])
  show "sorted_view s (snd (case f s of (x, s1) \<Rightarrow> g x s1))"
    using sorted_view_trans [OF v1 v2] by (simp add: fs gs)
next
  fix s u
  obtain x s1 where fs: "f s = (x, s1)" by (cases "f s")
  obtain y s2 where gs: "g x s1 = (y, s2)" by (cases "g x s1")
  have v2: "sorted_view s1 s2" by (rule settling_view [OF g gs])
  assume su: "sorted_view s u" and "sorted_view (snd (case f s of (x, s1) \<Rightarrow> g x s1)) u"
  then have s2u: "sorted_view s2 u" by (simp add: fs gs)
  have s1u: "sorted_view s1 u" by (rule sorted_view_trans [OF v2 s2u])
  have fu: "f u = (x, u)" by (rule settling_same [OF f fs su s1u])
  have gu: "g x u = (y, u)" by (rule settling_same [OF g gs s1u s2u])
  show "(case f u of (x, s1) \<Rightarrow> g x s1) = (fst (case f s of (x, s1) \<Rightarrow> g x s1), u)"
    by (simp add: fu gu fs gs)
qed

lemma get_category_Nil_iff: "get_category s c = [] \<longleftrightarrow> s c = None \<or> s c = Some []"
  by (cases "s c") (simp_all add: get_category_def)

lemma get_category_Cons: "get_category s c = x # xs \<Longrightarrow> s c = Some (x # xs)"
  by (cases "s c") (simp_all add: get_category_def)

lemma settling_sort_step:
  fixes k :: "food_item \<Rightarrow> 'k::linorder"
  assumes km: "\<And>t v. sorted_view t v \<Longrightarrow> v c = t c \<or> v c = map_option (sort_desc k) (t c)"
      and vi: "\<And>s xs. s c = Some xs \<Longrightarrow> sorted_view s (s(c \<mapsto> sort_desc k xs))"
  shows "settling (\<lambda>s. case sort_desc k (get_category s c) of
                          [] \<Rightarrow> (h0, s)
                        | b # r \<Rightarrow> (h b, s(c \<mapsto> b # r)))"
    (is "settling ?f")
proof (rule settlingI)
  fix s
  show "sorted_view s (snd (?f s))"
  proof (cases "get_category s c")
    case Nil
    then show ?thesis by (simp add: sorted_view_refl)
  next
    case (Cons x xs)
    have sc: "s c = Some (x # xs)" by (rule get_category_Cons [OF Cons])
    obtain b r where br: "sort_desc k (x # xs) = b # r"
      using sort_desc_Cons_not_Nil [of k x xs] by (cases "sort_desc k (x # xs)") auto
    from vi [of s "x # xs", OF sc] show ?thesis by (simp add: Cons br)
  qed
next
  fix s u
  assume su: "sorted_view s u" and s'u: "sorted_view (snd (?f s)) u"
  show "?f u = (fst (?f s), u)"
  proof (cases "get_category s c")
    case Nil
    then have "s c = None \<or> s c = Some []" by (simp add: get_category_Nil_iff)
    with km [OF su] have "u c = None \<or> u c = Some []" by auto
    then have "get_category u c = []" by (simp add: get_category_Nil_iff)
    with Nil show ?thesis by simp
  next
    case (Cons x xs)
    obtain b r where br: "sort_desc k (x # xs) = b # r"
      using sort_desc_Cons_not_Nil [of k x xs] by (cases "sort_desc k (x # xs)") auto
    have fs: "?f s = (h b, s(c \<mapsto> b # r))" by (simp add: Cons br)
    have idem: "sort_desc k (b # r) = b # r"
      using sort_desc_idem [of k "x # xs"] by (simp add: br)
    from km [OF s'u [unfolded fs snd_conv]] have uc: "u c = Some (b # r)"
      by (auto simp: idem)
    then have gu: "get_category u c = b # r" by (simp add: get_category_def)
    have "u(c \<mapsto> b # r) = u" using uc by (simp add: fun_upd_idem)
    then show ?thesis by (simp add: fs gu idem)
  qed
qed

lemma view_protein:
  "sorted_view t v \<Longrightarrow>
     v ''protein'' = t ''protein'' \<or>
     v ''protein'' = map_option (sort_desc item_protein_g) (t ''protein'')"
  by (drule sorted_viewD [of _ _ "''protein''"]) simp

lemma view_vegetable:
  "sorted_view t v \<Longrightarrow>
     v ''vegetable'' = t ''vegetable'' \<or>
     v ''vegetable'' =
       map_option (sort_desc (\<lambda>x. (item_id x \<in> set veg_priority, fiber_g x))) (t ''vegetable'')"
  by (drule sorted_viewD [of _ _ "''vegetable''"]) simp

lemma view_fat:
  "sorted_view t v \<Longrightarrow>
     v ''fat'' = t ''fat'' \<or>
     v ''fat'' = map_option (sort_desc (\<lambda>x. item_id x \<in> set fat_priority)) (t ''fat'')"
  by (drule sorted_viewD [of _ _ "''fat''"]) simp

lemma view_grain: "sorted_view t v \<Longrightarrow> v ''grain'' = t ''grain''"
  by (drule sorted_viewD [of _ _ "''grain''"]) simp

lemma view_carb: "sorted_view t v \<Longrightarrow> v ''carb'' = t ''carb''"
  by (drule sorted_viewD [of _ _ "''carb''"]) simp

lemma sorted_view_protein: "s ''protein'' = Some xs \<Longrightarrow>
    sorted_view s (s(''protein'' \<mapsto> sort_desc item_protein_g xs))"
  by (simp add: sorted_view_def)

lemma sorted_view_vegetable: "s ''vegetable'' = Some xs \<Longrightarrow>
    sorted_view s
      (s(''vegetable'' \<mapsto> sort_desc (\<lambda>x. (item_id x \<in> set veg_priority, fiber_g x)) xs))"
  by (simp add: sorted_view_def)

lemma sorted_view_fat: "s ''fat'' = Some xs \<Longrightarrow>
    sorted_view s (s(''fat'' \<mapsto> sort_desc (\<lambda>x. item_id x \<in> set fat_priority) xs))"
  by (simp add: sorted_view_def)

lemma step_protein_alias:
  assumes "returns_alias rs"
  shows "step_protein s mp rs sel =
     (case sort_desc item_protein_g (get_category s ''protein'') of
        [] \<Rightarrow> (Inr sel, s)
      | b # r \<Rightarrow>
          (if item_protein_g b = 0 then Inl ZeroDivisionError
           else Inr (select_food sel b
                  (min (max (mp * (6 / 10) / item_protein_g b * 100) MIN_PORTION) MAX_PORTION)),
           s(''protein'' \<mapsto> b # r)))"
proof (cases "get_category s ''protein''")
  case Nil
  then show ?thesis
    by (simp add: step_protein_def filter_by_restrictions_def assms)
next
  case (Cons x xs)
  obtain b r where br: "sort_desc item_protein_g (x # xs) = b # r"
    using sort_desc_Cons_not_Nil [of item_protein_g x xs]
    by (cases "sort_desc item_protein_g (x # xs)") auto
  show ?thesis
    by (simp add: step_protein_def filter_by_restrictions_def assms Cons br Let_def)
qed

lemma settling_step_protein:
  assumes "returns_alias rs"
  shows "settling (\<lambda>s. step_protein s mp rs sel)"
  unfolding step_protein_alias [OF assms]
  by (rule settling_sort_step) (erule view_protein, erule sorted_view_protein)

lemma settling_step_vegetable:
  assumes "returns_alias rs"
  shows "settling (\<lambda>s. step_vegetable s rs sel)"
  unfolding step_vegetable_def filter_by_restrictions_def using assms
  by (simp only: if_True)
     (rule settling_sort_step, erule view_vegetable, erule sorted_view_vegetable)

lemma step_fat_alias:
  assumes "returns_alias rs"
  shows "step_fat s mf rs sel =
     (if fat_g (total_nutrition sel) < mf * (7 / 10) then
        (case sort_desc (\<lambda>x. item_id x \<in> set fat_priority) (get_category s ''fat'') of
           [] \<Rightarrow> (Inr sel, s)
         | b # r \<Rightarrow>
             (if item_fat_g b = 0 then Inl ZeroDivisionError
              else Inr (select_food sel b
                     (min (max (max (mf - fat_g (total_nutrition sel)) 0 / item_fat_g b * 100) 5) 30)),
              s(''fat'' \<mapsto> b # r)))
      else (Inr sel, s))"
  by (simp add: step_fat_def filter_by_restrictions_def assms Let_def split: list.splits)

lemma settling_step_fat:
  assumes "returns_alias rs"
  shows "settling (\<lambda>s. step_fat s mf rs sel)"
proof (cases "fat_g (total_nutrition sel) < mf * (7 / 10)")
  case True
  show ?thesis
    unfolding step_fat_alias [OF assms] using True
    by (simp only: if_True)
       (rule settling_sort_step, erule view_fat, erule sorted_view_fat)
next
  case False
  show ?thesis
    unfolding step_fat_alias [OF assms] using False
    by (simp only: if_False) (rule settling_return)
qed

lemma step_grain_view: "sorted_view s u \<Longrightarrow> step_grain u mc rs sel = step_grain s mc rs sel"
  by (simp add: step_grain_def get_category_def view_grain view_carb)

lemma settling_select_foods:
  assumes "returns_alias rs"
  shows "settling (\<lambda>s. select_foods s mp mc mf rs)"
proof -
  let ?after_veg = "\<lambda>sel3 s. step_fat s mf rs sel3"
  let ?after_grain = "\<lambda>y s. case y of
      Inl e \<Rightarrow> (Inl e, s)
    | Inr sel2 \<Rightarrow> (case step_vegetable s rs sel2 of (sel3, s3) \<Rightarrow> ?after_veg sel3 s3)"
  let ?after_protein = "\<lambda>x s. case x of
      Inl e \<Rightarrow> (Inl e, s)
    | Inr sel1 \<Rightarrow> (case (step_grain s mc rs sel1, s) of (y, s2) \<Rightarrow> ?after_grain y s2)"
  have veg: "\<And>sel2. settling (\<lambda>s. case step_vegetable s rs sel2 of (sel3, s3) \<Rightarrow> ?after_veg sel3 s3)"
    by (rule settling_bind [OF settling_step_vegetable [OF assms] settling_step_fat [OF assms]])
  have ag: "\<And>y. settling (?after_grain y)"
  proof -
    fix y show "settling (?after_grain y)"
      by (cases y) (simp_all add: settling_return veg)
  qed
  have gr: "\<And>sel1. settling (\<lambda>s. case (step_grain s mc rs sel1, s) of (y, s2) \<Rightarrow> ?after_grain y s2)"
    by (rule settling_bind [OF settling_read ag]) (rule step_grain_view)
  have ap: "\<And>x. settling (?after_protein x)"
  proof -
    fix x show "settling (?after_protein x)"
      by (cases x) (simp_all only: sum.case settling_return gr)
  qed
  have all: "settling (\<lambda>s. case step_protein s mp rs empty_selection of (x, s1) \<Rightarrow> ?after_protein x s1)"
    by (rule settling_bind [OF settling_step_protein [OF assms] ap])
  have "(\<lambda>s. select_foods s mp mc mf rs) =
        (\<lambda>s. case step_protein s mp rs empty_selection of (x, s1) \<Rightarrow> ?after_protein x s1)"
    by (rule ext) (simp add: select_foods_def split: prod.splits sum.splits)
  with all show ?thesis by simp
qed

lemma settling_build_meal:
  assumes "returns_alias rs"
  shows "settling (\<lambda>s. build_meal s c mp mc mf rs)"
proof -
  let ?fin = "\<lambda>x s. (case x of Inl e \<Rightarrow> Inl e
                        | Inr sel \<Rightarrow> Inr (finish_meal (scale_to_target c sel)), s)"
  have "settling (\<lambda>s. case select_foods s mp mc mf rs of (x, s1) \<Rightarrow> ?fin x s1)"
    by (rule settling_bind [OF settling_select_foods [OF assms]]) (rule settling_return)
  moreover have "(\<lambda>s. build_meal s c mp mc mf rs) =
        (\<lambda>s. case select_foods s mp mc mf rs of (x, s1) \<Rightarrow> ?fin x s1)"
    by (rule ext) (simp add: build_meal_def split: prod.splits sum.splits)
  ultimately show ?thesis by simp
qed

lemma settling_build_meals:
  assumes "returns_alias rs"
  shows "settling (\<lambda>s. build_meals s t dm rs shares)"
proof (induction shares)
  case Nil
  show ?case by (simp add: settling_return)
next
  case (Cons a shares)
  obtain nm pct where a: "a = (nm, pct)" by (cases a)
  obtain dp dc df where dm: "dm = (dp, dc, df)" by (cases dm)
  let ?cons = "\<lambda>m y s. (case y of Inl e \<Rightarrow> Inl e | Inr ms \<Rightarrow> Inr ((nm, m) # ms), s)"
  let ?rest = "\<lambda>x s. case x of
      Inl e \<Rightarrow> (Inl e, s)
    | Inr m \<Rightarrow> (case build_meals s t dm rs shares of (y, s2) \<Rightarrow> ?cons m y s2)"
  have r: "\<And>x. settling (?rest x)"
  proof -
    fix x
    have "\<And>m. settling (\<lambda>s. case build_meals s t dm rs shares of (y, s2) \<Rightarrow> ?cons m y s2)"
      by (rule settling_bind [OF Cons.IH]) (rule settling_return)
    then show "settling (?rest x)"
      by (cases x) (simp_all only: sum.case settling_return)
  qed
  have all: "settling (\<lambda>s. case build_meal s (py_int (of_int t * pct)) (dp * pct) (dc * pct)
                               (df * pct) rs of (x, s1) \<Rightarrow> ?rest x s1)"
    by (rule settling_bind [OF settling_build_meal [OF assms] r])
  have "(\<lambda>s. build_meals s t dm rs (a # shares)) =
        (\<lambda>s. case build_meal s (py_int (of_int t * pct)) (dp * pct) (dc * pct)
                               (df * pct) rs of (x, s1) \<Rightarrow> ?rest x s1)"
    by (rule ext) (simp add: a dm split: prod.splits sum.splits)
  with all show ?case by simp
qed

lemma settling_generate_plan:
  assumes "returns_alias rs"
  shows "settling (\<lambda>s. generate_plan s t g rs)"
proof (cases "calculate_macros t g")
  case (Inl e)
  then show ?thesis by (simp add: generate_plan_def settling_return)
next
  case (Inr dm)
  define h where "h = (\<lambda>x. case x of
      Inl e \<Rightarrow> ExceptionError e
    | Inr meal_plan \<Rightarrow>
        if t = 0 then ExceptionError ZeroDivisionError
        else if \<not> fst (validate_safety meal_plan) then SafetyError (snd (validate_safety meal_plan))
        else Success meal_plan
               \<lparr>daily_calories = round1 (sum_list (map (\<lambda>(n, m). total_calories m) meal_plan)),
                daily_protein_g = round1 (sum_list (map (\<lambda>(n, m). total_protein_g m) meal_plan)),
                daily_carbs_g = round1 (sum_list (map (\<lambda>(n, m). total_carbs_g m) meal_plan)),
                daily_fat_g = round1 (sum_list (map (\<lambda>(n, m). total_fat_g m) meal_plan)),
                macro_accuracy =
                  round1 (sum_list (map (\<lambda>(n, m). total_calories m) meal_plan)) / of_int t * 100\<rparr>)"
  have h: "(\<lambda>s. generate_plan s t g rs) =
             (\<lambda>s. case build_meals s t dm rs MEAL_DISTRIBUTION of (x, s1) \<Rightarrow> (h x, s1))"
    by (rule ext) (auto simp: generate_plan_def Inr Let_def h_def split: prod.splits sum.splits)
  have "settling (\<lambda>s. case build_meals s t dm rs MEAL_DISTRIBUTION of (x, s1) \<Rightarrow> (h x, s1))"
    by (rule settling_bind [OF settling_build_meals [OF assms]]) (rule settling_return)
  with h show ?thesis by simp
qed

lemma step_protein_no_alias: "\<not> returns_alias rs \<Longrightarrow> snd (step_protein s mp rs sel) = s"
  by (simp add: step_protein_def Let_def split: list.splits)

lemma step_vegetable_no_alias: "\<not> returns_alias rs \<Longrightarrow> snd (step_vegetable s rs sel) = s"
  by (simp add: step_vegetable_def split: list.splits)

lemma step_fat_no_alias: "\<not> returns_alias rs \<Longrightarrow> snd (step_fat s mf rs sel) = s"
  by (simp add: step_fat_def Let_def split: list.splits)

lemma select_foods_no_alias:
  assumes "\<not> returns_alias rs"
  shows "snd (select_foods s mp mc mf rs) = s"
proof -
  obtain x s1 where p: "step_protein s mp rs empty_selection = (x, s1)"
    by (cases "step_protein s mp rs empty_selection")
  with step_protein_no_alias [OF assms, of s mp empty_selection] have s1: "s1 = s" by simp
  show ?thesis
  proof (cases x)
    case (Inl e)
    then show ?thesis by (simp add: select_foods_def p s1)
  next
    case (Inr sel1)
    show ?thesis
    proof (cases "step_grain s mc rs sel1")
      case (Inl e)
      then show ?thesis by (simp add: select_foods_def p s1 Inr)
    next
      case sel2: (Inr sel2)
      obtain sel3 s3 where v: "step_vegetable s rs sel2 = (sel3, s3)"
        by (cases "step_vegetable s rs sel2")
      with step_vegetable_no_alias [OF assms, of s sel2] have s3: "s3 = s" by simp
      show ?thesis
        by (simp add: select_foods_def p s1 Inr sel2 v s3 step_fat_no_alias [OF assms])
    qed
  qed
qed

lemma build_meal_no_alias:
  assumes "\<not> returns_alias rs"
  shows "snd (build_meal s c mp mc mf rs) = s"
  using select_foods_no_alias [OF assms, of s mp mc mf]
  by (auto simp: build_meal_def split: prod.splits sum.splits)

lemma build_meals_no_alias:
  assumes "\<not> returns_alias rs"
  shows "snd (build_meals s t dm rs shares) = s"
proof (induction shares arbitrary: s)
  case Nil
  show ?case by simp
next
  case (Cons a shares)
  obtain nm pct where a: "a = (nm, pct)" by (cases a)
  obtain dp dc df where dm: "dm = (dp, dc, df)" by (cases dm)
  obtain x s1 where b: "build_meal s (py_int (of_int t * pct)) (dp * pct) (dc * pct) (df * pct) rs = (x, s1)"
    by (cases "build_meal s (py_int (of_int t * pct)) (dp * pct) (dc * pct) (df * pct) rs")
  with build_meal_no_alias [OF assms, of s] have s1: "s1 = s" by (metis snd_conv)
  obtain y s2 where r: "build_meals s t dm rs shares = (y, s2)"
    by (cases "build_meals s t dm rs shares")
  with Cons.IH [of s] have s2: "s2 = s" by simp
  show ?case
    by (cases x; cases y) (simp_all add: a dm b s1 r [unfolded dm] s2)
qed

lemma generate_plan_no_alias:
  assumes "\<not> returns_alias rs"
  shows "snd (generate_plan s t g rs) = s"
proof (cases "calculate_macros t g")
  case (Inl e)
  then show ?thesis by (simp add: generate_plan_def)
next
  case (Inr dm)
  obtain x s1 where b: "build_meals s t dm rs MEAL_DISTRIBUTION = (x, s1)"
    by (cases "build_meals s t dm rs MEAL_DISTRIBUTION")
  with build_meals_no_alias [OF assms, of s t dm MEAL_DISTRIBUTION] have "s1 = s" by simp
  with b show ?thesis
    by (cases x) (simp_all add: generate_plan_def Inr Let_def split: prod.splits)
qed

text \<open>Calling generate_plan a second time, on the index the first call left.\<close>

lemma generate_plan_twice:
  assumes "generate_plan idx target goal restrictions = (result, idx')"
  shows "generate_plan idx' target goal restrictions = (result, idx')"
proof (cases "returns_alias restrictions")
  case True
  have v: "sorted_view idx idx'"
    by (rule settling_view [OF settling_generate_plan [OF True] assms])
  show ?thesis
    by (rule settling_same [OF settling_generate_plan [OF True] assms v sorted_view_refl])
next
  case False
  from generate_plan_no_alias [OF False, of idx target goal] assms have "idx' = idx" by simp
  with assms show ?thesis by simp
qed

end
